theory Spec2Isabelle
  imports Main
begin

section \<open>Shared helpers\<close>

text \<open>
  A point in time is its number of milliseconds since the epoch, what \<open>Date.getTime()\<close>
  returns; the ISO-8601 text that \<open>toISOString()\<close> makes of it is not modelled.
\<close>

type_synonym timestamp = int

text \<open>
  JavaScript template strings print numbers in decimal. Every number printed by the
  modelled code is a device count or a device limit, modelled as \<open>int\<close>.
\<close>

definition digit_char :: "nat \<Rightarrow> char" where
  "digit_char d = char_of (48 + d)"

function dec_nat :: "nat \<Rightarrow> string" where
  "dec_nat n = (if n < 10 then [digit_char n] else dec_nat (n div 10) @ [digit_char (n mod 10)])"
  by pat_completeness auto
termination
  by (relation "measure (\<lambda>n. n)") auto

definition show_int :: "int \<Rightarrow> string" where
  "show_int i = (if i < 0 then ''-'' @ dec_nat (nat (- i)) else dec_nat (nat i))"

section \<open>Billing status resolver (stripeWebhook.ts, subscriptionStatus.ts)\<close>

text \<open>
  \<open>type BillingStatus = 'unpaid' | 'paid' | 'past_due' | 'canceled' | 'trialing'\<close>.
  The Stripe subscription status reaches the function as a string at run time.
\<close>

datatype BillingStatus = Unpaid | Paid | Past_due | Canceled | Trialing

text \<open>The \<open>switch\<close> of \<open>mapSubscriptionStatus\<close>, case by case, with its \<open>default\<close>.\<close>

definition mapSubscriptionStatus :: "string \<Rightarrow> BillingStatus" where
  "mapSubscriptionStatus stripeStatus =
     (if stripeStatus = ''active'' then Paid
      else if stripeStatus = ''trialing'' then Trialing
      else if stripeStatus = ''past_due'' then Past_due
      else if stripeStatus = ''canceled'' \<or> stripeStatus = ''unpaid''
              \<or> stripeStatus = ''incomplete'' \<or> stripeStatus = ''incomplete_expired''
              \<or> stripeStatus = ''paused'' then Unpaid
      else Unpaid)"

text \<open>
  \<open>getAccountBillingStatus\<close> asks Stripe for the customer's subscriptions and reads the
  first one. The answer of \<open>stripe.subscriptions.list\<close> is the argument: \<open>Inl\<close> when the
  call throws, \<open>Inr\<close> the statuses of \<open>subs.data\<close> otherwise. Its own \<open>BillingStatus\<close>
  type has no \<open>trialing\<close>: a trialing subscription is reported as paid.
\<close>

datatype stripe_error = StripeError

definition getAccountBillingStatus :: "stripe_error + string list \<Rightarrow> BillingStatus" where
  "getAccountBillingStatus subs =
     (case subs of
        Inl _ \<Rightarrow> Unpaid
      | Inr [] \<Rightarrow> Unpaid
      | Inr (sub # _) \<Rightarrow>
          (if sub = ''active'' \<or> sub = ''trialing'' then Paid
           else if sub = ''past_due'' then Past_due
           else if sub = ''canceled'' \<or> sub = ''unpaid'' then Unpaid
           else Unpaid))"

section \<open>Billing enforcement (enforce.ts)\<close>

definition ACTIVE_BILLING_STATUSES :: "string list" where
  "ACTIVE_BILLING_STATUSES = [''paid'', ''trialing'']"

definition BLOCKED_BILLING_STATUSES :: "string list" where
  "BLOCKED_BILLING_STATUSES = [''unpaid'', ''past_due'', ''canceled'']"

text \<open>\<open>max_devices: number | 'unlimited'\<close>\<close>

datatype max_devices = Limit int | Unlimited

text \<open>
  \<open>interface Account\<close>. The pairing endpoint's account has one more field,
  \<open>device_count\<close>, and is passed to the functions of enforce.ts as it is: a record
  extension.
\<close>

record Account =
  acc_id :: "string option"
  acc_max_devices :: max_devices
  acc_billing_status :: string

record PairingAccount = Account +
  acc_device_count :: int

datatype plan_tier = Starter | Pro | Enterprise

record Location =
  loc_id :: string
  loc_organization_id :: string
  loc_name :: string
  loc_plan_tier :: plan_tier
  loc_device_limit :: int
  loc_active :: bool
  loc_setup_fee_paid :: bool

datatype enforcement_result = ALLOWED | BLOCKED

text \<open>\<open>interface EnforcementLog\<close>; \<open>type\<close> is always \<open>'BILLING_ENFORCEMENT'\<close>.\<close>

record EnforcementLog =
  log_type :: string
  log_timestamp :: timestamp
  log_org_id :: "string option"
  log_location_id :: "string option"
  log_billing_status :: string
  log_action :: string
  log_result :: enforcement_result
  log_reason :: "string option"
  log_device_count :: "int option"
  log_max_devices :: "max_devices option"

text \<open>
  The argument of \<open>logEnforcementEvent\<close>: an \<open>EnforcementLog\<close> without \<open>type\<close> and
  \<open>timestamp\<close>.
\<close>

record LogEvent =
  ev_org_id :: "string option"
  ev_location_id :: "string option"
  ev_billing_status :: string
  ev_action :: string
  ev_result :: enforcement_result
  ev_reason :: "string option"
  ev_device_count :: "int option"
  ev_max_devices :: "max_devices option"

text \<open>
  The module-level array \<open>enforcementLogs\<close> is the state: each function that logs takes
  the array and returns it updated. \<open>now\<close> is what \<open>new Date()\<close> reads;
  the clock does not advance within one request. The line printed on the console is not
  modelled.
\<close>

definition logEnforcementEvent ::
  "timestamp \<Rightarrow> LogEvent \<Rightarrow> EnforcementLog list \<Rightarrow> EnforcementLog list" where
  "logEnforcementEvent now ev enforcementLogs =
     enforcementLogs @
       [\<lparr> log_type = ''BILLING_ENFORCEMENT'',
          log_timestamp = now,
          log_org_id = ev_org_id ev,
          log_location_id = ev_location_id ev,
          log_billing_status = ev_billing_status ev,
          log_action = ev_action ev,
          log_result = ev_result ev,
          log_reason = ev_reason ev,
          log_device_count = ev_device_count ev,
          log_max_devices = ev_max_devices ev \<rparr>]"

definition isBillingActive :: "string \<Rightarrow> bool" where
  "isBillingActive billing_status = (billing_status \<in> set ACTIVE_BILLING_STATUSES)"

text \<open>The object every enforcement function returns: \<open>{allowed, error?, code?, message?}\<close>.\<close>

record EnforceResult =
  res_allowed :: bool
  res_error :: "string option"
  res_code :: "string option"
  res_message :: "string option"

definition allowed_result :: EnforceResult where
  "allowed_result =
     \<lparr> res_allowed = True, res_error = None, res_code = None, res_message = None \<rparr>"

definition blocked_result :: "string \<Rightarrow> string \<Rightarrow> EnforceResult" where
  "blocked_result c m =
     \<lparr> res_allowed = False, res_error = Some c, res_code = Some c, res_message = Some m \<rparr>"

definition enforceBillingForPairing ::
  "timestamp \<Rightarrow> 'a Account_scheme \<Rightarrow> EnforcementLog list \<Rightarrow> EnforceResult \<times> EnforcementLog list" where
  "enforceBillingForPairing now account logs =
     (let isActive = isBillingActive (acc_billing_status account);
          logs1 = logEnforcementEvent now
            \<lparr> ev_org_id = acc_id account,
              ev_location_id = None,
              ev_billing_status = acc_billing_status account,
              ev_action = ''PAIR_DEVICE'',
              ev_result = (if isActive then ALLOWED else BLOCKED),
              ev_reason = (if isActive then None
                 else Some (''Billing status '' @ [CHR 0x27] @ acc_billing_status account
                            @ [CHR 0x27] @ '' not in allowed list'')),
              ev_device_count = None,
              ev_max_devices = None \<rparr> logs
      in if \<not> isActive
         then (blocked_result ''BILLING_INACTIVE''
                 ''Active subscription required to pair new devices. Please visit /billing to activate.'',
               logs1)
         else (allowed_result, logs1))"

text \<open>
  \<open>enforceDeviceLimit\<close> returns nothing and throws an \<open>Error\<close> when the limit is
  exceeded: \<open>Inl\<close> carries the message of the error.
\<close>

definition enforceDeviceLimit ::
  "timestamp \<Rightarrow> 'a Account_scheme \<Rightarrow> int \<Rightarrow> EnforcementLog list \<Rightarrow> (string + unit) \<times> EnforcementLog list" where
  "enforceDeviceLimit now account deviceCount logs =
     (case acc_max_devices account of
        Unlimited \<Rightarrow>
          (Inr (),
           logEnforcementEvent now
             \<lparr> ev_org_id = acc_id account,
               ev_location_id = None,
               ev_billing_status = acc_billing_status account,
               ev_action = ''CHECK_DEVICE_LIMIT'',
               ev_result = ALLOWED,
               ev_reason = Some ''Enterprise plan - unlimited devices'',
               ev_device_count = Some deviceCount,
               ev_max_devices = Some Unlimited \<rparr> logs)
      | Limit maxDevices \<Rightarrow>
          (let allowed = (deviceCount \<le> maxDevices);
               logs1 = logEnforcementEvent now
                 \<lparr> ev_org_id = acc_id account,
                   ev_location_id = None,
                   ev_billing_status = acc_billing_status account,
                   ev_action = ''CHECK_DEVICE_LIMIT'',
                   ev_result = (if allowed then ALLOWED else BLOCKED),
                   ev_reason = (if allowed then None
                      else Some (''Limit '' @ show_int maxDevices @ '', attempting ''
                                 @ show_int deviceCount)),
                   ev_device_count = Some deviceCount,
                   ev_max_devices = Some (Limit maxDevices) \<rparr> logs
           in if \<not> allowed
              then (Inl (''Device limit exceeded. Plan allows '' @ show_int maxDevices
                         @ '' devices, attempting to add device #'' @ show_int deviceCount),
                    logs1)
              else (Inr (), logs1)))"

definition canAddDevice :: "'a Account_scheme \<Rightarrow> int \<Rightarrow> bool" where
  "canAddDevice account currentDeviceCount =
     (case acc_max_devices account of
        Unlimited \<Rightarrow> True
      | Limit maxDevices \<Rightarrow> currentDeviceCount < maxDevices)"

text \<open>
  The location-scoped gate. Four checks in the order of the source; each branch logs
  one event and returns.
\<close>

definition location_event ::
  "'a Account_scheme \<Rightarrow> Location \<Rightarrow> enforcement_result \<Rightarrow> string option
     \<Rightarrow> int option \<Rightarrow> max_devices option \<Rightarrow> LogEvent" where
  "location_event account location r reason dc md =
     \<lparr> ev_org_id = acc_id account,
       ev_location_id = Some (loc_id location),
       ev_billing_status = acc_billing_status account,
       ev_action = ''LOCATION_PAIR_DEVICE'',
       ev_result = r,
       ev_reason = reason,
       ev_device_count = dc,
       ev_max_devices = md \<rparr>"

definition enforceLocationPairing ::
  "timestamp \<Rightarrow> 'a Account_scheme \<Rightarrow> Location \<Rightarrow> int \<Rightarrow> EnforcementLog list
     \<Rightarrow> EnforceResult \<times> EnforcementLog list" where
  "enforceLocationPairing now account location currentDeviceCount logs =
     (let billingActive = isBillingActive (acc_billing_status account) in
      if \<not> billingActive then
        (blocked_result ''BILLING_INACTIVE''
           ''Active subscription required. Please visit /billing to activate.'',
         logEnforcementEvent now
           (location_event account location BLOCKED
              (Some (''Account billing status '' @ [CHR 0x27] @ acc_billing_status account
                     @ [CHR 0x27] @ '' not active''))
              None None) logs)
      else if \<not> loc_active location then
        (blocked_result ''LOCATION_INACTIVE''
           (''Location '' @ [CHR 0x27] @ loc_name location @ [CHR 0x27] @ '' is not active.''),
         logEnforcementEvent now
           (location_event account location BLOCKED (Some ''Location is not active'')
              None None) logs)
      else if \<not> loc_setup_fee_paid location then
        (blocked_result ''SETUP_FEE_NOT_PAID''
           (''Setup fee required for location '' @ [CHR 0x27] @ loc_name location
            @ [CHR 0x27] @ ''. Please complete payment.''),
         logEnforcementEvent now
           (location_event account location BLOCKED (Some ''Location setup fee not paid'')
              None None) logs)
      else if currentDeviceCount \<ge> loc_device_limit location then
        (blocked_result ''DEVICE_LIMIT_REACHED''
           (''Location '' @ [CHR 0x27] @ loc_name location
            @ [CHR 0x27] @ '' has reached its device limit (''
            @ show_int (loc_device_limit location)
            @ ''). Upgrade plan or add another location.''),
         logEnforcementEvent now
           (location_event account location BLOCKED
              (Some (''Device limit reached: '' @ show_int currentDeviceCount @ ''/''
                     @ show_int (loc_device_limit location)))
              (Some currentDeviceCount) (Some (Limit (loc_device_limit location)))) logs)
      else
        (allowed_result,
         logEnforcementEvent now
           (location_event account location ALLOWED None
              (Some currentDeviceCount) (Some (Limit (loc_device_limit location)))) logs))"

definition canLocationAddDevice ::
  "timestamp \<Rightarrow> 'a Account_scheme \<Rightarrow> Location \<Rightarrow> int \<Rightarrow> EnforcementLog list
     \<Rightarrow> bool \<times> EnforcementLog list" where
  "canLocationAddDevice now account location currentDeviceCount logs =
     (let (result, logs1) = enforceLocationPairing now account location currentDeviceCount logs
      in (res_allowed result, logs1))"

section \<open>Device pairing endpoint (pair.ts)\<close>

record DevicePairingRequest =
  req_device_id :: string
  req_account_id :: string
  req_pairing_code :: "string option"
  req_device_name :: "string option"

record DevicePairingSuccess =
  ps_device_id :: string
  ps_account_id :: string
  ps_paired_at :: timestamp
  ps_device_name :: string

text \<open>
  \<open>error\<close>, \<open>code\<close> and \<open>message\<close> are copied from the billing check with a non-null
  assertion (\<open>billingCheck.error!\<close>), which checks nothing at run time: they stay optional
  here.
\<close>

record DevicePairingError =
  pe_error :: "string option"
  pe_code :: "string option"
  pe_message :: "string option"
  pe_billing_status :: "string option"
  pe_help :: "string option"

datatype DevicePairingResponse =
    PairingSuccess DevicePairingSuccess
  | PairingFailure DevicePairingError

definition pairDevice ::
  "timestamp \<Rightarrow> DevicePairingRequest \<Rightarrow> 'a PairingAccount_scheme \<Rightarrow> EnforcementLog list
     \<Rightarrow> DevicePairingResponse \<times> EnforcementLog list" where
  "pairDevice now req account logs =
     (let (billingCheck, logs1) = enforceBillingForPairing now account logs in
      if \<not> res_allowed billingCheck then
        (PairingFailure
           \<lparr> pe_error = res_error billingCheck,
             pe_code = res_code billingCheck,
             pe_message = res_message billingCheck,
             pe_billing_status = Some (acc_billing_status account),
             pe_help = Some ''Visit /billing to activate your subscription'' \<rparr>,
         logs1)
      else
        (case enforceDeviceLimit now account (acc_device_count account + 1) logs1 of
           (Inl limitError, logs2) \<Rightarrow>
             (PairingFailure
                \<lparr> pe_error = Some ''DEVICE_LIMIT_EXCEEDED'',
                  pe_code = Some ''DEVICE_LIMIT_EXCEEDED'',
                  pe_message = Some limitError,
                  pe_billing_status = Some (acc_billing_status account),
                  pe_help = Some ''Upgrade your plan at /billing to add more devices'' \<rparr>,
              logEnforcementEvent now
                \<lparr> ev_org_id = acc_id account,
                  ev_location_id = None,
                  ev_billing_status = acc_billing_status account,
                  ev_action = ''PAIR_DEVICE'',
                  ev_result = BLOCKED,
                  ev_reason = Some limitError,
                  ev_device_count = Some (acc_device_count account),
                  ev_max_devices = Some (acc_max_devices account) \<rparr> logs2)
         | (Inr _, logs2) \<Rightarrow>
             (PairingSuccess
                \<lparr> ps_device_id = req_device_id req,
                  ps_account_id = req_account_id req,
                  ps_paired_at = now,
                  ps_device_name =
                    (case req_device_name req of
                       None \<Rightarrow> ''Device '' @ take 8 (req_device_id req)
                     | Some n \<Rightarrow> if n = [] then ''Device '' @ take 8 (req_device_id req) else n) \<rparr>,
              logEnforcementEvent now
                \<lparr> ev_org_id = acc_id account,
                  ev_location_id = None,
                  ev_billing_status = acc_billing_status account,
                  ev_action = ''PAIR_DEVICE'',
                  ev_result = ALLOWED,
                  ev_reason = None,
                  ev_device_count = Some (acc_device_count account + 1),
                  ev_max_devices = Some (acc_max_devices account) \<rparr> logs2)))"

record CanPairResult =
  cp_allowed :: bool
  cp_reason :: "string option"
  cp_code :: "string option"
  cp_billing_status :: string

definition canPairDevice :: "'a PairingAccount_scheme \<Rightarrow> CanPairResult" where
  "canPairDevice account =
     (if acc_billing_status account \<notin> set ACTIVE_BILLING_STATUSES then
        \<lparr> cp_allowed = False,
          cp_reason = Some ''Active subscription required to pair new devices'',
          cp_code = Some ''BILLING_INACTIVE'',
          cp_billing_status = acc_billing_status account \<rparr>
      else
        (case acc_max_devices account of
           Limit maxDevices \<Rightarrow>
             if acc_device_count account \<ge> maxDevices then
               \<lparr> cp_allowed = False,
                 cp_reason = Some (''Device limit reached ('' @ show_int maxDevices
                                   @ '' devices on current plan)''),
                 cp_code = Some ''DEVICE_LIMIT_EXCEEDED'',
                 cp_billing_status = acc_billing_status account \<rparr>
             else
               \<lparr> cp_allowed = True, cp_reason = None, cp_code = None,
                 cp_billing_status = acc_billing_status account \<rparr>
         | Unlimited \<Rightarrow>
             \<lparr> cp_allowed = True, cp_reason = None, cp_code = None,
               cp_billing_status = acc_billing_status account \<rparr>))"

section \<open>Device heartbeat (heartbeat/handler.ts)\<close>

datatype device_status = Dev_online | Dev_idle | Dev_playing

record HeartbeatPayload =
  hp_device_id :: string
  hp_status :: device_status
  hp_uptime :: int
  hp_current_board :: "string option"
  hp_last_seen :: string

datatype command_type = Reload | Switch_board | Update | Restart

record Command =
  cmd_type :: command_type
  cmd_payload :: "(string \<times> string) list option"

record AccountInfo =
  ai_billing_status :: string
  ai_plan :: string
  ai_device_count :: int

record HeartbeatResponse =
  hr_acknowledged :: bool
  hr_server_time :: timestamp
  hr_billing_status :: "string option"
  hr_plan :: "string option"
  hr_device_count :: "int option"
  hr_commands :: "Command list"

definition HEARTBEAT_INTERVAL_SECONDS :: int where
  "HEARTBEAT_INTERVAL_SECONDS = 60"

definition MISSED_BEATS_BEFORE_OFFLINE :: int where
  "MISSED_BEATS_BEFORE_OFFLINE = 3"

text \<open>
  The module-level \<open>Map\<close> \<open>deviceLastSeen\<close> is the state. \<open>accountInfo\<close> is an optional
  argument; \<open>accountInfo?.billing_status\<close> is \<open>undefined\<close> without it.
\<close>

definition handleHeartbeat ::
  "timestamp \<Rightarrow> HeartbeatPayload \<Rightarrow> AccountInfo option \<Rightarrow> (string \<rightharpoonup> timestamp)
     \<Rightarrow> HeartbeatResponse \<times> (string \<rightharpoonup> timestamp)" where
  "handleHeartbeat now payload accountInfo deviceLastSeen =
     (let deviceLastSeen1 = deviceLastSeen(hp_device_id payload \<mapsto> now);
          commands = []
      in (\<lparr> hr_acknowledged = True,
            hr_server_time = now,
            hr_billing_status = map_option ai_billing_status accountInfo,
            hr_plan = map_option ai_plan accountInfo,
            hr_device_count = map_option ai_device_count accountInfo,
            hr_commands = commands \<rparr>,
          deviceLastSeen1))"

text \<open>
  \<open>diffSeconds\<close> is a quotient of floating-point numbers; comparing it with 180 is the
  same as comparing the difference in milliseconds with 180000.
\<close>

definition checkDeviceOffline :: "timestamp \<Rightarrow> string \<Rightarrow> (string \<rightharpoonup> timestamp) \<Rightarrow> bool" where
  "checkDeviceOffline now device_id deviceLastSeen =
     (case deviceLastSeen device_id of
        None \<Rightarrow> True
      | Some lastSeen \<Rightarrow>
          now - lastSeen > 1000 * (HEARTBEAT_INTERVAL_SECONDS * MISSED_BEATS_BEFORE_OFFLINE))"

section \<open>Service registry health summary (mosm-heartbeat.js, GET /health)\<close>

definition HEARTBEAT_TIMEOUT_MS :: int where
  "HEARTBEAT_TIMEOUT_MS = 120000"

text \<open>
  The column \<open>service_registry.status\<close> is checked by the schema to be one of four
  values. \<open>last_heartbeat\<close> is a nullable \<open>TIMESTAMPTZ\<close>; the joined \<open>locations\<close> row gives
  the name of the location.
\<close>

datatype service_status = Online | Degraded | Offline | Unknown

record ServiceRow =
  sr_service_id :: string
  sr_location_id :: string
  sr_instance_id :: string
  sr_status :: service_status
  sr_version :: "string option"
  sr_last_heartbeat :: "timestamp option"
  sr_locations_name :: "string option"

record StatusCounts =
  online :: nat
  degraded :: nat
  offline :: nat
  unknown :: nat

record LocationService =
  ls_service :: string
  ls_status :: service_status
  ls_version :: "string option"
  ls_lastHeartbeat :: "timestamp option"

record LocationHealth =
  lh_name :: string
  lh_services :: "LocationService list"

record HealthSummary = StatusCounts +
  hs_total :: nat
  byService :: "string \<rightharpoonup> StatusCounts"
  byLocation :: "string \<rightharpoonup> LocationHealth"

text \<open>\<open>new Date(x).getTime()\<close>: \<open>new Date(null)\<close> is the epoch.\<close>

definition getTime :: "timestamp option \<Rightarrow> int" where
  "getTime d = (case d of None \<Rightarrow> 0 | Some t \<Rightarrow> t)"

text \<open>\<open>counts[effectiveStatus]++\<close>\<close>

definition increment :: "service_status \<Rightarrow> 'a StatusCounts_scheme \<Rightarrow> 'a StatusCounts_scheme" where
  "increment st c =
     (case st of
        Online \<Rightarrow> c\<lparr>online := online c + 1\<rparr>
      | Degraded \<Rightarrow> c\<lparr>degraded := degraded c + 1\<rparr>
      | Offline \<Rightarrow> c\<lparr>offline := offline c + 1\<rparr>
      | Unknown \<Rightarrow> c\<lparr>unknown := unknown c + 1\<rparr>)"

definition isStale :: "timestamp \<Rightarrow> ServiceRow \<Rightarrow> bool" where
  "isStale now service = (now - getTime (sr_last_heartbeat service) > HEARTBEAT_TIMEOUT_MS)"

definition effectiveStatus :: "timestamp \<Rightarrow> ServiceRow \<Rightarrow> service_status" where
  "effectiveStatus now service = (if isStale now service then Offline else sr_status service)"

text \<open>The body of the \<open>for\<close> loop over the services.\<close>

definition summary_step :: "timestamp \<Rightarrow> HealthSummary \<Rightarrow> ServiceRow \<Rightarrow> HealthSummary" where
  "summary_step now summary service =
     (let eff = effectiveStatus now service;
          s1 = increment eff summary;
          sid = sr_service_id service;
          perService =
            (case byService s1 sid of
               None \<Rightarrow> \<lparr> online = 0, degraded = 0, offline = 0, unknown = 0 \<rparr>
             | Some c \<Rightarrow> c);
          s2 = s1\<lparr>byService := (byService s1)(sid \<mapsto> increment eff perService)\<rparr>;
          locId = sr_location_id service;
          perLocation =
            (case byLocation s2 locId of
               None \<Rightarrow>
                 \<lparr> lh_name = (case sr_locations_name service of
                                None \<Rightarrow> ''Unknown''
                              | Some n \<Rightarrow> if n = [] then ''Unknown'' else n),
                   lh_services = [] \<rparr>
             | Some l \<Rightarrow> l)
      in s2\<lparr>byLocation := (byLocation s2)(locId \<mapsto>
              perLocation\<lparr>lh_services := lh_services perLocation @
                 [\<lparr> ls_service = sid, ls_status = eff, ls_version = sr_version service,
                    ls_lastHeartbeat = sr_last_heartbeat service \<rparr>]\<rparr>)\<rparr>)"

text \<open>
  The summary of the route \<open>GET /health\<close>, from \<open>const now = Date.now()\<close> to the end of
  the loop; \<open>services\<close> is the answer of the store.
\<close>

definition getHealthSummary :: "timestamp \<Rightarrow> ServiceRow list \<Rightarrow> HealthSummary" where
  "getHealthSummary now services =
     foldl (summary_step now)
       \<lparr> online = 0, degraded = 0, offline = 0, unknown = 0,
         hs_total = length services, byService = Map.empty, byLocation = Map.empty \<rparr>
       services"

section \<open>JSON values\<close>

text \<open>
  What \<open>JSON.parse\<close> returns. Numbers are kept as integers: the code modelled here only
  asks whether a number is zero. An object lists each of its keys once.
\<close>

datatype json =
    JNull
  | JBool bool
  | JNum int
  | JStr string
  | JArr "json list"
  | JObj "(string \<times> json) list"

text \<open>
  A JavaScript value read from a property is a JSON value or \<open>undefined\<close> (\<open>None\<close>).
  Reading a property of \<open>null\<close> throws a \<open>TypeError\<close>; of an object it looks the key up;
  of a boolean, a number, a string or an array it gives \<open>undefined\<close> for every property
  name used here.
\<close>

datatype js_error = TypeError

definition get_prop :: "json \<Rightarrow> string \<Rightarrow> js_error + json option" where
  "get_prop v k =
     (case v of
        JNull \<Rightarrow> Inl TypeError
      | JObj kvs \<Rightarrow> Inr (map_of kvs k)
      | _ \<Rightarrow> Inr None)"

text \<open>Truthiness: what \<open>!x\<close> and \<open>x || y\<close> test.\<close>

definition truthy :: "json option \<Rightarrow> bool" where
  "truthy v =
     (case v of
        None \<Rightarrow> False
      | Some JNull \<Rightarrow> False
      | Some (JBool b) \<Rightarrow> b
      | Some (JNum n) \<Rightarrow> n \<noteq> 0
      | Some (JStr s) \<Rightarrow> s \<noteq> []
      | Some (JArr _) \<Rightarrow> True
      | Some (JObj _) \<Rightarrow> True)"

definition or_else :: "json option \<Rightarrow> json \<Rightarrow> json" where
  "or_else v d = (if truthy v then (case v of Some x \<Rightarrow> x | None \<Rightarrow> d) else d)"

section \<open>Rollout orchestration (rolloutsService.js)\<close>

datatype rollout_type = Menu_activation | Config_update | Feature_toggle

datatype rollout_status = Pending | Scheduled | In_progress | Completed | Failed | Rolled_back

datatype execution_status = Exec_pending | Exec_in_progress | Exec_completed | Exec_failed

text \<open>
  The rows of the tables \<open>rollouts\<close> and \<open>rollout_executions\<close> (control-plane-schema.sql).
  The status columns are checked by the schema to hold one of the listed values. Of an
  execution, the columns \<open>id\<close> and \<open>created_at\<close>, which the store fills in and no
  operation modelled here reads, are left out.
\<close>

record Rollout =
  ro_id :: string
  ro_name :: string
  ro_organization_id :: string
  ro_rollout_type :: rollout_type
  ro_target_locations :: "string list"
  ro_payload :: json
  ro_status :: rollout_status
  ro_scheduled_at :: "timestamp option"
  ro_started_at :: "timestamp option"
  ro_completed_at :: "timestamp option"
  ro_created_by :: "string option"
  ro_created_at :: timestamp
  ro_updated_at :: timestamp

record RolloutExecution =
  ex_rollout_id :: string
  ex_location_id :: string
  ex_status :: execution_status
  ex_started_at :: "timestamp option"
  ex_completed_at :: "timestamp option"
  ex_error_message :: "string option"

text \<open>
  The store is the state: two tables, each a list of rows. It answers every read, and
  refuses a write in two cases only: an insert whose primary key is already there, and
  a request for a single row (\<open>.single()\<close>) that does not touch exactly one row; the
  refused write changes nothing.
\<close>

record Store =
  rollouts :: "Rollout list"
  rollout_executions :: "RolloutExecution list"

datatype store_error = Duplicate_key | Not_single_row

text \<open>
  \<open>createRollout\<close>. \<open>newId\<close> is the identifier the store generates for the new row.
  The answer of the second insert is not looked at by the source.
\<close>

definition createRollout ::
  "string \<Rightarrow> timestamp \<Rightarrow> string \<Rightarrow> string \<Rightarrow> rollout_type \<Rightarrow> string list \<Rightarrow> json
     \<Rightarrow> timestamp option \<Rightarrow> string option \<Rightarrow> Store \<Rightarrow> (store_error + Rollout) \<times> Store" where
  "createRollout newId now name organizationId rolloutType targetLocations payload
       scheduledAt createdBy db =
     (if newId \<in> set (map ro_id (rollouts db)) then (Inl Duplicate_key, db)
      else
        (let data =
               \<lparr> ro_id = newId,
                 ro_name = name,
                 ro_organization_id = organizationId,
                 ro_rollout_type = rolloutType,
                 ro_target_locations = targetLocations,
                 ro_payload = payload,
                 ro_status = (case scheduledAt of Some _ \<Rightarrow> Scheduled | None \<Rightarrow> Pending),
                 ro_scheduled_at = scheduledAt,
                 ro_started_at = None,
                 ro_completed_at = None,
                 ro_created_by = createdBy,
                 ro_created_at = now,
                 ro_updated_at = now \<rparr>;
             db1 = db\<lparr>rollouts := rollouts db @ [data]\<rparr>;
             db2 =
               (if length targetLocations > 0 then
                  db1\<lparr>rollout_executions := rollout_executions db1 @
                        map (\<lambda>locId.
                               \<lparr> ex_rollout_id = ro_id data,
                                 ex_location_id = locId,
                                 ex_status = Exec_pending,
                                 ex_started_at = None,
                                 ex_completed_at = None,
                                 ex_error_message = None \<rparr>) targetLocations\<rparr>
                else db1)
         in (Inr data, db2)))"

text \<open>
  \<open>startRollout\<close>: the update is filtered by \<open>.eq('id', rolloutId).eq('status', 'pending')\<close>
  and asks for a single row.
\<close>

definition startRollout ::
  "timestamp \<Rightarrow> string \<Rightarrow> Store \<Rightarrow> (store_error + Rollout) \<times> Store" where
  "startRollout now rolloutId db =
     (let matches = (\<lambda>r. ro_id r = rolloutId \<and> ro_status r = Pending);
          upd = (\<lambda>r. r\<lparr>ro_status := In_progress, ro_started_at := Some now,
                         ro_updated_at := now\<rparr>)
      in case filter matches (rollouts db) of
           [r] \<Rightarrow>
             (Inr (upd r),
              db\<lparr>rollouts := map (\<lambda>r. if matches r then upd r else r) (rollouts db)\<rparr>)
         | _ \<Rightarrow> (Inl Not_single_row, db))"

definition is_terminal :: "execution_status \<Rightarrow> bool" where
  "is_terminal st = (st = Exec_completed \<or> st = Exec_failed)"

text \<open>
  \<open>checkRolloutCompletion\<close>: \<open>executions.every(...)\<close>, \<open>executions.some(...)\<close> and the
  update of the rollout's row.
\<close>

definition checkRolloutCompletion :: "timestamp \<Rightarrow> string \<Rightarrow> Store \<Rightarrow> Store" where
  "checkRolloutCompletion now rolloutId db =
     (let executions = filter (\<lambda>e. ex_rollout_id e = rolloutId) (rollout_executions db);
          allComplete = list_all (\<lambda>e. is_terminal (ex_status e)) executions
      in if allComplete then
           (let hasFailure = list_ex (\<lambda>e. ex_status e = Exec_failed) executions;
                finalStatus = (if hasFailure then Failed else Completed)
            in db\<lparr>rollouts :=
                   map (\<lambda>r. if ro_id r = rolloutId
                             then r\<lparr>ro_status := finalStatus, ro_completed_at := Some now,
                                    ro_updated_at := now\<rparr>
                             else r) (rollouts db)\<rparr>)
         else db)"

text \<open>
  \<open>updateExecutionStatus\<close>: the fields of \<open>updates\<close> are written to the one execution of
  the rollout at the location; when the store reports an error the function throws
  before the completion check.
\<close>

definition apply_updates ::
  "timestamp \<Rightarrow> execution_status \<Rightarrow> string option \<Rightarrow> RolloutExecution \<Rightarrow> RolloutExecution" where
  "apply_updates now status errorMessage e =
     (let e1 = e\<lparr>ex_status := status, ex_error_message := errorMessage\<rparr>
      in if status = Exec_in_progress then e1\<lparr>ex_started_at := Some now\<rparr>
         else if status = Exec_completed \<or> status = Exec_failed
           then e1\<lparr>ex_completed_at := Some now\<rparr>
         else e1)"

definition updateExecutionStatus ::
  "timestamp \<Rightarrow> string \<Rightarrow> string \<Rightarrow> execution_status \<Rightarrow> string option \<Rightarrow> Store
     \<Rightarrow> (store_error + RolloutExecution) \<times> Store" where
  "updateExecutionStatus now rolloutId locationId status errorMessage db =
     (let matches = (\<lambda>e. ex_rollout_id e = rolloutId \<and> ex_location_id e = locationId)
      in case filter matches (rollout_executions db) of
           [e] \<Rightarrow>
             (let db1 = db\<lparr>rollout_executions :=
                           map (\<lambda>e. if matches e then apply_updates now status errorMessage e
                                     else e) (rollout_executions db)\<rparr>
              in (Inr (apply_updates now status errorMessage e),
                  checkRolloutCompletion now rolloutId db1))
         | _ \<Rightarrow> (Inl Not_single_row, db))"

definition cancelRollout ::
  "timestamp \<Rightarrow> string \<Rightarrow> Store \<Rightarrow> (store_error + Rollout) \<times> Store" where
  "cancelRollout now rolloutId db =
     (let matches = (\<lambda>r. ro_id r = rolloutId \<and> ro_status r \<in> set [Pending, Scheduled]);
          upd = (\<lambda>r. r\<lparr>ro_status := Rolled_back, ro_updated_at := now\<rparr>)
      in case filter matches (rollouts db) of
           [r] \<Rightarrow>
             (Inr (upd r),
              db\<lparr>rollouts := map (\<lambda>r. if matches r then upd r else r) (rollouts db)\<rparr>)
         | _ \<Rightarrow> (Inl Not_single_row, db))"

text \<open>\<open>.lte('scheduled_at', now)\<close> is not true of a row whose \<open>scheduled_at\<close> is null.\<close>

definition getDueScheduledRollouts :: "timestamp \<Rightarrow> Store \<Rightarrow> Rollout list" where
  "getDueScheduledRollouts now db =
     filter (\<lambda>r. ro_status r = Scheduled \<and>
                 (case ro_scheduled_at r of Some t \<Rightarrow> t \<le> now | None \<Rightarrow> False))
       (rollouts db)"

section \<open>Event mirror (mosm-events.js, POST /events)\<close>

definition validServices :: "string list" where
  "validServices = [''modos-menus'', ''pos-lite'', ''kds'', ''mosm-cloud'']"

text \<open>
  The row built for a valid event, and the error recorded for an invalid one. The three
  required fields are copied as they are read; the others are replaced by \<open>null\<close>, \<open>{}\<close>
  or the current time when they are falsy.
\<close>

record EventRow =
  er_event_type :: "json option"
  er_source_service :: "json option"
  er_location_id :: "json option"
  er_organization_id :: json
  er_actor_id :: json
  er_resource_type :: json
  er_resource_id :: json
  er_payload :: json
  er_timestamp :: json

record ItemError =
  ie_index :: nat
  ie_error :: string

definition js_get :: "json \<Rightarrow> string \<Rightarrow> json option" where
  "js_get v k = (case get_prop v k of Inl _ \<Rightarrow> None | Inr x \<Rightarrow> x)"

definition includes_service :: "json option \<Rightarrow> bool" where
  "includes_service v = (case v of Some (JStr s) \<Rightarrow> s \<in> set validServices | _ \<Rightarrow> False)"

definition missing_fields_error :: string where
  "missing_fields_error = ''Missing required fields: event_type, source_service, location_id''"

definition invalid_service_error :: string where
  "invalid_service_error =
     ''Invalid source_service. Must be one of: modos-menus, pos-lite, kds, mosm-cloud''"

definition make_row :: "string \<Rightarrow> json \<Rightarrow> EventRow" where
  "make_row nowIso e =
     \<lparr> er_event_type = js_get e ''event_type'',
       er_source_service = js_get e ''source_service'',
       er_location_id = js_get e ''location_id'',
       er_organization_id = or_else (js_get e ''organization_id'') JNull,
       er_actor_id = or_else (js_get e ''actor_id'') JNull,
       er_resource_type = or_else (js_get e ''resource_type'') JNull,
       er_resource_id = or_else (js_get e ''resource_id'') JNull,
       er_payload = or_else (js_get e ''payload'') (JObj []),
       er_timestamp = or_else (js_get e ''timestamp'') (JStr nowIso) \<rparr>"

text \<open>
  The validation loop \<open>for (let i = 0; i < events.length; i++)\<close>: the events still to
  visit, the index \<open>i\<close>, and the arrays \<open>validEvents\<close> and \<open>errors\<close>. The first property
  read, \<open>e.event_type\<close>, throws when the entry is \<open>null\<close>.
\<close>

fun validate_events ::
  "string \<Rightarrow> json list \<Rightarrow> nat \<Rightarrow> EventRow list \<Rightarrow> ItemError list
     \<Rightarrow> js_error + (EventRow list \<times> ItemError list)" where
  "validate_events nowIso [] i validEvents errors = Inr (validEvents, errors)"
| "validate_events nowIso (e # es) i validEvents errors =
     (case get_prop e ''event_type'' of
        Inl err \<Rightarrow> Inl err
      | Inr event_type \<Rightarrow>
          if \<not> truthy event_type \<or> \<not> truthy (js_get e ''source_service'')
             \<or> \<not> truthy (js_get e ''location_id'')
          then validate_events nowIso es (i + 1) validEvents
                 (errors @ [\<lparr> ie_index = i, ie_error = missing_fields_error \<rparr>])
          else if \<not> includes_service (js_get e ''source_service'')
          then validate_events nowIso es (i + 1) validEvents
                 (errors @ [\<lparr> ie_index = i, ie_error = invalid_service_error \<rparr>])
          else validate_events nowIso es (i + 1) (validEvents @ [make_row nowIso e]) errors)"

text \<open>The message of the \<open>TypeError\<close> thrown by reading \<open>event_type\<close> of \<open>null\<close>.\<close>

definition null_type_error :: string where
  "null_type_error =
     ''Cannot read properties of null (reading '' @ [CHR 0x27] @ ''event_type''
     @ [CHR 0x27] @ '')''"

text \<open>
  The answers of the route: status code and body. \<open>errors\<close> is left out of the 201 body
  when there is none.
\<close>

datatype events_response =
    Created nat "ItemError list option"
  | Bad_request string "ItemError list"
  | Unauthorized string
  | Server_error string

text \<open>
  \<open>POST /events\<close>. \<open>keyValid\<close> is the result of \<open>validateServiceKey\<close>; \<open>nowIso\<close> is the
  text \<open>new Date().toISOString()\<close> gives, stored as the default timestamp; \<open>body\<close> is the
  parsed request body (\<open>{}\<close> when the request has none); \<open>accepts\<close> tells whether the
  store takes the rows of the insert, which is all or nothing; \<open>event_log\<close> is the table.
  A \<open>TypeError\<close> thrown by the loop is caught by the handler's \<open>catch\<close>, which answers
  500 with the message of the error.
\<close>

definition post_events ::
  "bool \<Rightarrow> string \<Rightarrow> (EventRow list \<Rightarrow> bool) \<Rightarrow> json \<Rightarrow> EventRow list
     \<Rightarrow> events_response \<times> EventRow list" where
  "post_events keyValid nowIso accepts body event_log =
     (if \<not> keyValid then (Unauthorized ''Invalid service key'', event_log)
      else
        (let events = (case body of JArr xs \<Rightarrow> xs | _ \<Rightarrow> [body])
         in case validate_events nowIso events 0 [] [] of
              Inl TypeError \<Rightarrow>
                (Server_error null_type_error, event_log)
            | Inr (validEvents, errors) \<Rightarrow>
                if length validEvents = 0
                then (Bad_request ''No valid events'' errors, event_log)
                else if \<not> accepts validEvents
                then (Server_error ''Failed to log events'', event_log)
                else (Created (length validEvents)
                        (if length errors > 0 then Some errors else None),
                      event_log @ validEvents)))"

text \<open>
  The validation stated entry by entry, to compare the loop with: an entry is valid
  when its three required fields are truthy and its \<open>source_service\<close> is one of the
  known services; an invalid entry at index \<open>i\<close> gets the error \<open>item_error i\<close>.
\<close>

definition has_required :: "json \<Rightarrow> bool" where
  "has_required e =
     (truthy (js_get e ''event_type'') \<and> truthy (js_get e ''source_service'')
      \<and> truthy (js_get e ''location_id''))"

definition item_valid :: "json \<Rightarrow> bool" where
  "item_valid e = (has_required e \<and> includes_service (js_get e ''source_service''))"

definition item_error :: "nat \<Rightarrow> json \<Rightarrow> ItemError" where
  "item_error i e =
     \<lparr> ie_index = i,
       ie_error = (if has_required e then invalid_service_error else missing_fields_error) \<rparr>"

fun expected_errors :: "nat \<Rightarrow> json list \<Rightarrow> ItemError list" where
  "expected_errors i [] = []"
| "expected_errors i (e # es) =
     (if item_valid e then [] else [item_error i e]) @ expected_errors (Suc i) es"

section \<open>Example inputs\<close>

definition ex_account :: "string \<Rightarrow> Account" where
  "ex_account billing_status =
     \<lparr> acc_id = Some ''org-001'', acc_max_devices = Limit 3,
       acc_billing_status = billing_status \<rparr>"

definition ex_location :: "bool \<Rightarrow> bool \<Rightarrow> Location" where
  "ex_location active setup_fee_paid =
     \<lparr> loc_id = ''loc-01'', loc_organization_id = ''org-001'', loc_name = ''Main Street'',
       loc_plan_tier = Starter, loc_device_limit = 3, loc_active = active,
       loc_setup_fee_paid = setup_fee_paid \<rparr>"

definition ex_payload :: HeartbeatPayload where
  "ex_payload =
     \<lparr> hp_device_id = ''dev-01'', hp_status = Dev_playing, hp_uptime = 3600,
       hp_current_board = None, hp_last_seen = ''2024-01-01T00:00:00Z'' \<rparr>"

definition ex_account_info :: "string \<Rightarrow> AccountInfo" where
  "ex_account_info billing_status =
     \<lparr> ai_billing_status = billing_status, ai_plan = ''starter'', ai_device_count = 2 \<rparr>"

definition ex_service :: "service_status \<Rightarrow> timestamp option \<Rightarrow> ServiceRow" where
  "ex_service st hb =
     \<lparr> sr_service_id = ''modos-menus'', sr_location_id = ''loc-01'',
       sr_instance_id = ''inst-A'', sr_status = st, sr_version = None,
       sr_last_heartbeat = hb, sr_locations_name = Some ''Main Street'' \<rparr>"

definition ex_pairing_account :: "string \<Rightarrow> int \<Rightarrow> PairingAccount" where
  "ex_pairing_account billing_status device_count =
     \<lparr> acc_id = Some ''org-001'', acc_max_devices = Limit 3,
       acc_billing_status = billing_status, acc_device_count = device_count \<rparr>"

definition ex_request :: DevicePairingRequest where
  "ex_request =
     \<lparr> req_device_id = ''dev-0123456789'', req_account_id = ''org-001'',
       req_pairing_code = None, req_device_name = None \<rparr>"

definition ex_rollout :: "rollout_status \<Rightarrow> timestamp option \<Rightarrow> string list \<Rightarrow> Rollout" where
  "ex_rollout st scheduled_at targets =
     \<lparr> ro_id = ''r1'', ro_name = ''Lunch menu'', ro_organization_id = ''org-001'',
       ro_rollout_type = Menu_activation, ro_target_locations = targets,
       ro_payload = JObj [(''menu_id'', JStr ''m1'')], ro_status = st,
       ro_scheduled_at = scheduled_at, ro_started_at = None, ro_completed_at = None,
       ro_created_by = None, ro_created_at = 1, ro_updated_at = 1 \<rparr>"

definition ex_execution :: "string \<Rightarrow> execution_status \<Rightarrow> RolloutExecution" where
  "ex_execution loc st =
     \<lparr> ex_rollout_id = ''r1'', ex_location_id = loc, ex_status = st,
       ex_started_at = None, ex_completed_at = None, ex_error_message = None \<rparr>"

text \<open>A rollout in progress at three locations, with the given execution states.\<close>

definition ex_store ::
  "execution_status \<Rightarrow> execution_status \<Rightarrow> execution_status \<Rightarrow> Store" where
  "ex_store s1 s2 s3 =
     \<lparr> rollouts = [ex_rollout In_progress None [''L1'', ''L2'', ''L3'']],
       rollout_executions =
         [ex_execution ''L1'' s1, ex_execution ''L2'' s2, ex_execution ''L3'' s3] \<rparr>"

text \<open>A rollout scheduled for time 5, and a pending one, each at one location.\<close>

definition ex_scheduled_store :: Store where
  "ex_scheduled_store =
     \<lparr> rollouts = [ex_rollout Scheduled (Some 5) [''L1'']],
       rollout_executions = [ex_execution ''L1'' Exec_pending] \<rparr>"

definition ex_pending_store :: Store where
  "ex_pending_store =
     \<lparr> rollouts = [ex_rollout Pending None [''L1'']],
       rollout_executions = [ex_execution ''L1'' Exec_pending] \<rparr>"

text \<open>A rollout created without target locations and then started: no execution.\<close>

definition ex_zero_target_store :: Store where
  "ex_zero_target_store =
     \<lparr> rollouts = [ex_rollout In_progress None []], rollout_executions = [] \<rparr>"

definition empty_store :: Store where
  "empty_store = \<lparr> rollouts = [], rollout_executions = [] \<rparr>"

definition ex_event :: json where
  "ex_event =
     JObj [(''event_type'', JStr ''order.created''), (''source_service'', JStr ''kds''),
           (''location_id'', JStr ''loc-01'')]"

section \<open>The heartbeat never depends on billing\<close>

text \<open>
  C1. Whatever the payload and whatever account information is passed (also none),
  \<open>handleHeartbeat\<close> acknowledges; and two runs that differ in the account information
  only, so in particular in its \<open>billing_status\<close> only, return the same \<open>acknowledged\<close>
  and the same \<open>commands\<close>, and leave the same last-seen map.
\<close>

theorem heartbeat_no_bricking:
  "hr_acknowledged (fst (handleHeartbeat now p ai s)) = True \<and>
   hr_acknowledged (fst (handleHeartbeat now p ai s))
     = hr_acknowledged (fst (handleHeartbeat now p ai' s)) \<and>
   hr_commands (fst (handleHeartbeat now p ai s))
     = hr_commands (fst (handleHeartbeat now p ai' s)) \<and>
   snd (handleHeartbeat now p ai s) = snd (handleHeartbeat now p ai' s)"
  by (simp add: handleHeartbeat_def)

theorem heartbeat_no_bricking_witness:
  "hr_acknowledged (fst (handleHeartbeat 1000 ex_payload
      (Some (ex_account_info ''canceled'')) Map.empty)) = True \<and>
   hr_commands (fst (handleHeartbeat 1000 ex_payload
      (Some (ex_account_info ''paid'')) Map.empty))
     = hr_commands (fst (handleHeartbeat 1000 ex_payload
      (Some (ex_account_info ''canceled'')) Map.empty))"
  using heartbeat_no_bricking [of 1000 ex_payload "Some (ex_account_info ''canceled'')"
          Map.empty "Some (ex_account_info ''paid'')"]
  by simp

section \<open>The location gate\<close>

lemma ex_billing:
  "\<not> isBillingActive (acc_billing_status (ex_account ''unpaid''))"
  "isBillingActive (acc_billing_status (ex_account ''paid''))"
  "isBillingActive (acc_billing_status (ex_account ''trialing''))"
  by (simp_all add: isBillingActive_def ACTIVE_BILLING_STATUSES_def ex_account_def)

lemma ex_loc:
  "loc_active (ex_location a f) = a"
  "loc_setup_fee_paid (ex_location a f) = f"
  "loc_device_limit (ex_location a f) = 3"
  by (simp_all add: ex_location_def)

text \<open>
  C2. \<open>enforceLocationPairing\<close> returns the code of the first check that fails, in the
  order billing, location active, setup fee, device limit: a later code is returned
  only when every earlier check passes. In particular an account whose billing is not
  active gets \<open>BILLING_INACTIVE\<close> whatever the location and the device count are.
\<close>

theorem gate_ordering:
  "(\<not> isBillingActive (acc_billing_status a) \<longrightarrow>
      res_code (fst (enforceLocationPairing now a l n logs)) = Some ''BILLING_INACTIVE'') \<and>
   (isBillingActive (acc_billing_status a) \<and> \<not> loc_active l \<longrightarrow>
      res_code (fst (enforceLocationPairing now a l n logs)) = Some ''LOCATION_INACTIVE'') \<and>
   (isBillingActive (acc_billing_status a) \<and> loc_active l \<and> \<not> loc_setup_fee_paid l \<longrightarrow>
      res_code (fst (enforceLocationPairing now a l n logs)) = Some ''SETUP_FEE_NOT_PAID'') \<and>
   (isBillingActive (acc_billing_status a) \<and> loc_active l \<and> loc_setup_fee_paid l
      \<and> n \<ge> loc_device_limit l \<longrightarrow>
      res_code (fst (enforceLocationPairing now a l n logs)) = Some ''DEVICE_LIMIT_REACHED'') \<and>
   (isBillingActive (acc_billing_status a) \<and> loc_active l \<and> loc_setup_fee_paid l
      \<and> n < loc_device_limit l \<longrightarrow>
      res_allowed (fst (enforceLocationPairing now a l n logs)) \<and>
      res_code (fst (enforceLocationPairing now a l n logs)) = None)"
  by (simp add: enforceLocationPairing_def blocked_result_def allowed_result_def Let_def)

theorem gate_ordering_witness:
  "\<not> isBillingActive (acc_billing_status (ex_account ''unpaid'')) \<and>
   res_code (fst (enforceLocationPairing 0 (ex_account ''unpaid'') (ex_location False False) 3 []))
     = Some ''BILLING_INACTIVE'' \<and>
   isBillingActive (acc_billing_status (ex_account ''paid'')) \<and>
   res_code (fst (enforceLocationPairing 0 (ex_account ''paid'') (ex_location False False) 3 []))
     = Some ''LOCATION_INACTIVE'' \<and>
   res_code (fst (enforceLocationPairing 0 (ex_account ''paid'') (ex_location True False) 3 []))
     = Some ''SETUP_FEE_NOT_PAID'' \<and>
   res_code (fst (enforceLocationPairing 0 (ex_account ''paid'') (ex_location True True) 3 []))
     = Some ''DEVICE_LIMIT_REACHED'' \<and>
   res_allowed (fst (enforceLocationPairing 0 (ex_account ''trialing'') (ex_location True True) 2 []))"
  using gate_ordering [of "ex_account ''unpaid''" 0 "ex_location False False" 3 "[]"]
        gate_ordering [of "ex_account ''paid''" 0 "ex_location False False" 3 "[]"]
        gate_ordering [of "ex_account ''paid''" 0 "ex_location True False" 3 "[]"]
        gate_ordering [of "ex_account ''paid''" 0 "ex_location True True" 3 "[]"]
        gate_ordering [of "ex_account ''trialing''" 0 "ex_location True True" 2 "[]"]
  by (simp add: ex_billing ex_loc)

text \<open>
  C3. Every call of \<open>enforceLocationPairing\<close>, allowed or blocked, appends exactly one
  entry to the enforcement log: the log after the call is the log before it followed by
  one entry.
\<close>

theorem audit_completeness:
  "length (snd (enforceLocationPairing now a l n logs)) = length logs + 1 \<and>
   (\<exists>entry. snd (enforceLocationPairing now a l n logs) = logs @ [entry])"
  by (simp add: enforceLocationPairing_def logEnforcementEvent_def Let_def)

theorem audit_completeness_witness:
  "length (snd (enforceLocationPairing 0 (ex_account ''unpaid'') (ex_location True True) 0 [])) = 1 \<and>
   length (snd (enforceLocationPairing 0 (ex_account ''trialing'') (ex_location True True) 2 [])) = 1"
  using audit_completeness [of 0 "ex_account ''unpaid''" "ex_location True True" 0 "[]"]
        audit_completeness [of 0 "ex_account ''trialing''" "ex_location True True" 2 "[]"]
  by simp

section \<open>The billing status resolver\<close>

text \<open>
  C4. \<open>mapSubscriptionStatus\<close> maps \<open>active\<close> to paid, \<open>trialing\<close> to trialing, \<open>past_due\<close>
  to past_due, each of \<open>canceled\<close>, \<open>unpaid\<close>, \<open>incomplete\<close>, \<open>incomplete_expired\<close> and
  \<open>paused\<close> to unpaid, and every other state to unpaid. It is a function of the
  subscription state alone, so the same input always gives the same output.
\<close>

theorem resolver_mapping:
  "mapSubscriptionStatus ''active'' = Paid \<and>
   mapSubscriptionStatus ''trialing'' = Trialing \<and>
   mapSubscriptionStatus ''past_due'' = Past_due \<and>
   mapSubscriptionStatus ''canceled'' = Unpaid \<and>
   mapSubscriptionStatus ''unpaid'' = Unpaid \<and>
   mapSubscriptionStatus ''incomplete'' = Unpaid \<and>
   mapSubscriptionStatus ''incomplete_expired'' = Unpaid \<and>
   mapSubscriptionStatus ''paused'' = Unpaid \<and>
   (s \<notin> set [''active'', ''trialing'', ''past_due'', ''canceled'', ''unpaid'',
               ''incomplete'', ''incomplete_expired'', ''paused'']
      \<longrightarrow> mapSubscriptionStatus s = Unpaid)"
  by (simp add: mapSubscriptionStatus_def)

theorem resolver_mapping_witness:
  "''suspended'' \<notin> set [''active'', ''trialing'', ''past_due'', ''canceled'', ''unpaid'',
               ''incomplete'', ''incomplete_expired'', ''paused''] \<and>
   mapSubscriptionStatus ''suspended'' = Unpaid"
  using resolver_mapping [of "''suspended''"] by simp

text \<open>
  The status query of subscriptionStatus.ts is another function: it agrees with the
  resolver on the first subscription's state except for \<open>trialing\<close>, which it reports as
  paid.
\<close>

lemma getAccountBillingStatus_vs_resolver:
  "getAccountBillingStatus (Inr (sub # rest)) =
     (if sub = ''trialing'' then Paid else mapSubscriptionStatus sub)"
  by (simp add: getAccountBillingStatus_def mapSubscriptionStatus_def)

section \<open>The health summary\<close>

lemma increment_counts:
  "online (increment st c) = online c + (if st = Online then 1 else 0)"
  "degraded (increment st c) = degraded c + (if st = Degraded then 1 else 0)"
  "offline (increment st c) = offline c + (if st = Offline then 1 else 0)"
  "unknown (increment st c) = unknown c + (if st = Unknown then 1 else 0)"
  by (cases st; simp add: increment_def)+

lemma summary_step_counts:
  "online (summary_step now s x)
     = online s + (if effectiveStatus now x = Online then 1 else 0)"
  "degraded (summary_step now s x)
     = degraded s + (if effectiveStatus now x = Degraded then 1 else 0)"
  "offline (summary_step now s x)
     = offline s + (if effectiveStatus now x = Offline then 1 else 0)"
  "unknown (summary_step now s x)
     = unknown s + (if effectiveStatus now x = Unknown then 1 else 0)"
  by (simp_all add: summary_step_def Let_def increment_counts)

lemma foldl_summary_counts:
  "online (foldl (summary_step now) s xs)
     = online s + length (filter (\<lambda>x. effectiveStatus now x = Online) xs)"
  "degraded (foldl (summary_step now) s xs)
     = degraded s + length (filter (\<lambda>x. effectiveStatus now x = Degraded) xs)"
  "offline (foldl (summary_step now) s xs)
     = offline s + length (filter (\<lambda>x. effectiveStatus now x = Offline) xs)"
  "unknown (foldl (summary_step now) s xs)
     = unknown s + length (filter (\<lambda>x. effectiveStatus now x = Unknown) xs)"
  by (induction xs arbitrary: s; simp add: summary_step_counts)+

text \<open>
  C5. The summary counts under \<open>offline\<close> exactly the entries whose last heartbeat is
  more than 120000 ms (two minutes) before \<open>now\<close>, whatever their stored status, together
  with the fresh entries stored as offline; every other entry is counted under its
  stored status. A null \<open>last_heartbeat\<close> reads as the epoch.
\<close>

theorem staleness_recomputation:
  "offline (getHealthSummary now services) =
     length (filter (\<lambda>e. now - getTime (sr_last_heartbeat e) > 120000
                          \<or> sr_status e = Offline) services) \<and>
   online (getHealthSummary now services) =
     length (filter (\<lambda>e. now - getTime (sr_last_heartbeat e) \<le> 120000
                          \<and> sr_status e = Online) services) \<and>
   degraded (getHealthSummary now services) =
     length (filter (\<lambda>e. now - getTime (sr_last_heartbeat e) \<le> 120000
                          \<and> sr_status e = Degraded) services) \<and>
   unknown (getHealthSummary now services) =
     length (filter (\<lambda>e. now - getTime (sr_last_heartbeat e) \<le> 120000
                          \<and> sr_status e = Unknown) services)"
proof -
  have eff: "\<And>e st. (effectiveStatus now e = st) =
      (if now - getTime (sr_last_heartbeat e) > 120000 then st = Offline
       else sr_status e = st)"
    by (auto simp: effectiveStatus_def isStale_def HEARTBEAT_TIMEOUT_MS_def)
  have same: "\<And>P Q. (\<And>e. P e = Q e) \<Longrightarrow>
      length (filter P services) = length (filter Q services)"
    by presburger
  show ?thesis
    unfolding getHealthSummary_def foldl_summary_counts
    by (auto intro!: same simp: eff)
qed

text \<open>
  An entry stored as online whose last heartbeat is three minutes old is counted as
  offline; one minute old, as online.
\<close>

theorem staleness_recomputation_witness:
  "offline (getHealthSummary 1000000
      [ex_service Online (Some 820000), ex_service Online (Some 940000)]) = 1 \<and>
   online (getHealthSummary 1000000
      [ex_service Online (Some 820000), ex_service Online (Some 940000)]) = 1"
  using staleness_recomputation [of 1000000
          "[ex_service Online (Some 820000), ex_service Online (Some 940000)]"]
  by (simp add: ex_service_def getTime_def)

section \<open>Rollout aggregation\<close>

lemma checkRolloutCompletion_executions:
  "rollout_executions (checkRolloutCompletion now rid db) = rollout_executions db"
  by (simp add: checkRolloutCompletion_def Let_def)

lemma checkRolloutCompletion_rollouts:
  "rollouts (checkRolloutCompletion now rid db) =
     (if list_all (\<lambda>e. is_terminal (ex_status e))
           (filter (\<lambda>e. ex_rollout_id e = rid) (rollout_executions db))
      then map (\<lambda>r. if ro_id r = rid
                     then r\<lparr>ro_status :=
                            (if list_ex (\<lambda>e. ex_status e = Exec_failed)
                                  (filter (\<lambda>e. ex_rollout_id e = rid) (rollout_executions db))
                             then Failed else Completed),
                          ro_completed_at := Some now, ro_updated_at := now\<rparr>
                     else r) (rollouts db)
      else rollouts db)"
  by (simp add: checkRolloutCompletion_def Let_def)

text \<open>A call that succeeds has written the execution and run the completion check.\<close>

lemma updateExecutionStatus_success:
  assumes "\<not> isl (fst (updateExecutionStatus now rid lid st em db))"
  shows "snd (updateExecutionStatus now rid lid st em db) =
     checkRolloutCompletion now rid
       (db\<lparr>rollout_executions :=
             map (\<lambda>e. if ex_rollout_id e = rid \<and> ex_location_id e = lid
                       then apply_updates now st em e else e) (rollout_executions db)\<rparr>)"
  using assms
  by (simp add: updateExecutionStatus_def Let_def split: list.splits)

text \<open>A call that fails has thrown before the completion check: nothing is changed.\<close>

lemma updateExecutionStatus_failure:
  assumes "isl (fst (updateExecutionStatus now rid lid st em db))"
  shows "snd (updateExecutionStatus now rid lid st em db) = db"
  using assms
  by (simp add: updateExecutionStatus_def Let_def split: list.splits)

lemma rollouts_update_executions:
  "rollouts (db\<lparr>rollout_executions := X\<rparr>) = rollouts db"
  by simp

lemma all_terminal_iff:
  "list_all (\<lambda>e. is_terminal (ex_status e)) (filter (\<lambda>e. ex_rollout_id e = rid) E) =
     (\<forall>e \<in> set E. ex_rollout_id e = rid \<longrightarrow> is_terminal (ex_status e))"
  by (auto simp: list_all_iff)

lemma final_status_iff:
  "(if list_ex (\<lambda>e. ex_status e = Exec_failed) (filter (\<lambda>e. ex_rollout_id e = rid) E)
    then Failed else Completed) =
   (if \<exists>e \<in> set E. ex_rollout_id e = rid \<and> ex_status e = Exec_failed
    then Failed else Completed)"
  by (auto simp: list_ex_iff)

lemma map_upd_rows:
  assumes "r \<in> set (map (\<lambda>r. if ro_id r = rid
                     then r\<lparr>ro_status := final, ro_completed_at := Some now,
                            ro_updated_at := now\<rparr>
                     else r) rs)"
    and "ro_id r = rid"
  shows "ro_status r = final \<and> ro_completed_at r = Some now"
proof -
  from assms(1) obtain r0 where r0: "r0 \<in> set rs"
    and r: "r = (if ro_id r0 = rid
                 then r0\<lparr>ro_status := final, ro_completed_at := Some now,
                         ro_updated_at := now\<rparr>
                 else r0)"
    by (auto simp only: set_map image_iff)
  show ?thesis
  proof (cases "ro_id r0 = rid")
    case True
    with r show ?thesis by simp
  next
    case False
    with r assms(2) show ?thesis by simp
  qed
qed

lemma map_upd_ids:
  "map ro_id (map (\<lambda>r. if ro_id r = rid
                       then r\<lparr>ro_status := final, ro_completed_at := Some now,
                              ro_updated_at := now\<rparr>
                       else r) rs) = map ro_id rs"
  by (induction rs) simp_all

text \<open>
  What a call that updated its execution leaves behind: the aggregate status when all
  executions of the rollout are terminal, the rollouts table as it was otherwise.
\<close>

lemma aggregation_after_update:
  assumes "\<not> isl (fst (updateExecutionStatus now rid lid st em db))"
  shows
   "((\<forall>e \<in> set (rollout_executions (snd (updateExecutionStatus now rid lid st em db))).
        ex_rollout_id e = rid \<longrightarrow> is_terminal (ex_status e)) \<longrightarrow>
     (\<forall>r \<in> set (rollouts (snd (updateExecutionStatus now rid lid st em db))).
        ro_id r = rid \<longrightarrow>
          ro_status r =
            (if \<exists>e \<in> set (rollout_executions
                             (snd (updateExecutionStatus now rid lid st em db))).
                  ex_rollout_id e = rid \<and> ex_status e = Exec_failed
             then Failed else Completed) \<and>
          ro_completed_at r = Some now)) \<and>
    (\<not> (\<forall>e \<in> set (rollout_executions (snd (updateExecutionStatus now rid lid st em db))).
        ex_rollout_id e = rid \<longrightarrow> is_terminal (ex_status e)) \<longrightarrow>
     rollouts (snd (updateExecutionStatus now rid lid st em db)) = rollouts db) \<and>
    map ro_id (rollouts (snd (updateExecutionStatus now rid lid st em db)))
      = map ro_id (rollouts db)"
proof -
  define db1 where "db1 = db\<lparr>rollout_executions :=
             map (\<lambda>e. if ex_rollout_id e = rid \<and> ex_location_id e = lid
                       then apply_updates now st em e else e) (rollout_executions db)\<rparr>"
  define E where "E = rollout_executions db1"
  define final where
    "final = (if \<exists>e \<in> set E. ex_rollout_id e = rid \<and> ex_status e = Exec_failed
              then Failed else Completed)"
  define A where "A = (\<forall>e \<in> set E. ex_rollout_id e = rid \<longrightarrow> is_terminal (ex_status e))"
  define g :: "Rollout \<Rightarrow> Rollout" where
    "g = (\<lambda>r. if ro_id r = rid
              then r\<lparr>ro_status := final, ro_completed_at := Some now, ro_updated_at := now\<rparr>
              else r)"
  have R: "snd (updateExecutionStatus now rid lid st em db) = checkRolloutCompletion now rid db1"
    unfolding db1_def by (rule updateExecutionStatus_success [OF assms])
  have ex: "rollout_executions (checkRolloutCompletion now rid db1) = E"
    unfolding E_def by (rule checkRolloutCompletion_executions)
  have all: "list_all (\<lambda>e. is_terminal (ex_status e))
               (filter (\<lambda>e. ex_rollout_id e = rid) E) = A"
    unfolding A_def by (rule all_terminal_iff)
  have some: "(if list_ex (\<lambda>e. ex_status e = Exec_failed)
                    (filter (\<lambda>e. ex_rollout_id e = rid) E)
               then Failed else Completed) = final"
    unfolding final_def by (rule final_status_iff)
  have rdb1: "rollouts db1 = rollouts db"
    unfolding db1_def by (rule rollouts_update_executions)
  have ro: "rollouts (checkRolloutCompletion now rid db1) =
      (if A then map g (rollouts db) else rollouts db)"
    unfolding checkRolloutCompletion_rollouts E_def [symmetric] all some rdb1 g_def ..
  have c1: "A \<longrightarrow> (\<forall>r \<in> set (rollouts (checkRolloutCompletion now rid db1)).
        ro_id r = rid \<longrightarrow> ro_status r = final \<and> ro_completed_at r = Some now)"
  proof (intro impI ballI)
    fix r
    assume "A" and "r \<in> set (rollouts (checkRolloutCompletion now rid db1))"
      and id: "ro_id r = rid"
    then have "r \<in> set (map g (rollouts db))" by (simp only: ro if_True)
    then show "ro_status r = final \<and> ro_completed_at r = Some now"
      unfolding g_def using id by (rule map_upd_rows)
  qed
  have c2: "\<not> A \<longrightarrow> rollouts (checkRolloutCompletion now rid db1) = rollouts db"
    unfolding ro by simp
  have c3: "map ro_id (rollouts (checkRolloutCompletion now rid db1)) = map ro_id (rollouts db)"
    unfolding ro g_def by (cases A) (simp_all only: map_upd_ids if_True if_False)
  show ?thesis
    unfolding R ex A_def [symmetric] final_def [symmetric] using c1 c2 c3 by (intro conjI)
qed

lemmas ex_rollout_defs = updateExecutionStatus_def checkRolloutCompletion_def
  apply_updates_def ex_store_def ex_execution_def ex_rollout_def is_terminal_def Let_def

text \<open>
  C6, as the claim states it, fails: on a started rollout without executions the call
  matches no execution and throws before the completion check. All executions of the
  rollout (there is none) are terminal, yet the rollout stays in progress and
  \<open>completed_at\<close> stays unset.
\<close>

theorem rollout_aggregation_counterexample:
  "isl (fst (updateExecutionStatus 50 ''r1'' ''L1'' Exec_completed None ex_zero_target_store)) \<and>
   list_all (\<lambda>e. is_terminal (ex_status e))
     (filter (\<lambda>e. ex_rollout_id e = ''r1'')
        (rollout_executions (snd (updateExecutionStatus 50 ''r1'' ''L1'' Exec_completed None
           ex_zero_target_store)))) \<and>
   map ro_status (rollouts (snd (updateExecutionStatus 50 ''r1'' ''L1'' Exec_completed None
     ex_zero_target_store))) = [In_progress] \<and>
   map ro_completed_at (rollouts (snd (updateExecutionStatus 50 ''r1'' ''L1'' Exec_completed None
     ex_zero_target_store))) = [None]"
  by (simp add: updateExecutionStatus_def ex_zero_target_store_def ex_rollout_def)

text \<open>
  C6, amended. After every call of \<open>updateExecutionStatus\<close> that updates its execution
  (exactly one execution of the rollout is at the location): if all executions of the
  rollout are completed or failed, the rollout's status is failed when at least one
  execution failed and completed otherwise, and \<open>completed_at\<close> is set to the time of
  the call; if some execution is not terminal, the rollouts table is left as it was; the
  rollouts are the same ones in both cases. A call that does not update an execution
  fails before the aggregation and leaves the store as it was.
\<close>

theorem rollout_aggregation:
  "(\<not> isl (fst (updateExecutionStatus now rid lid st em db)) \<longrightarrow>
     ((\<forall>e \<in> set (rollout_executions (snd (updateExecutionStatus now rid lid st em db))).
          ex_rollout_id e = rid \<longrightarrow> is_terminal (ex_status e)) \<longrightarrow>
       (\<forall>r \<in> set (rollouts (snd (updateExecutionStatus now rid lid st em db))).
          ro_id r = rid \<longrightarrow>
            ro_status r =
              (if \<exists>e \<in> set (rollout_executions
                               (snd (updateExecutionStatus now rid lid st em db))).
                    ex_rollout_id e = rid \<and> ex_status e = Exec_failed
               then Failed else Completed) \<and>
            ro_completed_at r = Some now)) \<and>
      (\<not> (\<forall>e \<in> set (rollout_executions (snd (updateExecutionStatus now rid lid st em db))).
          ex_rollout_id e = rid \<longrightarrow> is_terminal (ex_status e)) \<longrightarrow>
       rollouts (snd (updateExecutionStatus now rid lid st em db)) = rollouts db) \<and>
      map ro_id (rollouts (snd (updateExecutionStatus now rid lid st em db)))
        = map ro_id (rollouts db)) \<and>
   (isl (fst (updateExecutionStatus now rid lid st em db)) \<longrightarrow>
      snd (updateExecutionStatus now rid lid st em db) = db)"
proof (rule conjI)
  show "\<not> isl (fst (updateExecutionStatus now rid lid st em db)) \<longrightarrow>
     ((\<forall>e \<in> set (rollout_executions (snd (updateExecutionStatus now rid lid st em db))).
          ex_rollout_id e = rid \<longrightarrow> is_terminal (ex_status e)) \<longrightarrow>
       (\<forall>r \<in> set (rollouts (snd (updateExecutionStatus now rid lid st em db))).
          ro_id r = rid \<longrightarrow>
            ro_status r =
              (if \<exists>e \<in> set (rollout_executions
                               (snd (updateExecutionStatus now rid lid st em db))).
                    ex_rollout_id e = rid \<and> ex_status e = Exec_failed
               then Failed else Completed) \<and>
            ro_completed_at r = Some now)) \<and>
      (\<not> (\<forall>e \<in> set (rollout_executions (snd (updateExecutionStatus now rid lid st em db))).
          ex_rollout_id e = rid \<longrightarrow> is_terminal (ex_status e)) \<longrightarrow>
       rollouts (snd (updateExecutionStatus now rid lid st em db)) = rollouts db) \<and>
      map ro_id (rollouts (snd (updateExecutionStatus now rid lid st em db)))
        = map ro_id (rollouts db)"
    by (rule impI) (rule aggregation_after_update)
  show "isl (fst (updateExecutionStatus now rid lid st em db)) \<longrightarrow>
      snd (updateExecutionStatus now rid lid st em db) = db"
    by (rule impI) (rule updateExecutionStatus_failure)
qed

text \<open>
  Three locations: executions completed, completed, failed give a failed rollout;
  three completed give a completed one; with one still pending the rollout stays in
  progress.
\<close>

theorem rollout_aggregation_witness:
  "\<not> isl (fst (updateExecutionStatus 50 ''r1'' ''L3'' Exec_failed (Some ''timeout'')
       (ex_store Exec_completed Exec_completed Exec_in_progress))) \<and>
   map ro_status (rollouts (snd (updateExecutionStatus 50 ''r1'' ''L3'' Exec_failed
       (Some ''timeout'') (ex_store Exec_completed Exec_completed Exec_in_progress))))
     = [Failed] \<and>
   map ro_completed_at (rollouts (snd (updateExecutionStatus 50 ''r1'' ''L3'' Exec_failed
       (Some ''timeout'') (ex_store Exec_completed Exec_completed Exec_in_progress))))
     = [Some 50] \<and>
   \<not> isl (fst (updateExecutionStatus 50 ''r1'' ''L3'' Exec_completed None
       (ex_store Exec_completed Exec_completed Exec_in_progress))) \<and>
   map ro_status (rollouts (snd (updateExecutionStatus 50 ''r1'' ''L3'' Exec_completed None
       (ex_store Exec_completed Exec_completed Exec_in_progress)))) = [Completed] \<and>
   \<not> isl (fst (updateExecutionStatus 50 ''r1'' ''L3'' Exec_completed None
       (ex_store Exec_completed Exec_pending Exec_in_progress))) \<and>
   map ro_status (rollouts (snd (updateExecutionStatus 50 ''r1'' ''L3'' Exec_completed None
       (ex_store Exec_completed Exec_pending Exec_in_progress)))) = [In_progress] \<and>
   isl (fst (updateExecutionStatus 50 ''r1'' ''L4'' Exec_completed None
       (ex_store Exec_completed Exec_pending Exec_in_progress))) \<and>
   snd (updateExecutionStatus 50 ''r1'' ''L4'' Exec_completed None
       (ex_store Exec_completed Exec_pending Exec_in_progress))
     = ex_store Exec_completed Exec_pending Exec_in_progress"
proof -
  have ok1: "\<not> isl (fst (updateExecutionStatus 50 ''r1'' ''L3'' Exec_failed (Some ''timeout'')
       (ex_store Exec_completed Exec_completed Exec_in_progress)))"
    by (simp add: ex_rollout_defs)
  have ok2: "\<not> isl (fst (updateExecutionStatus 50 ''r1'' ''L3'' Exec_completed None
       (ex_store Exec_completed Exec_completed Exec_in_progress)))"
    by (simp add: ex_rollout_defs)
  have ok3: "\<not> isl (fst (updateExecutionStatus 50 ''r1'' ''L3'' Exec_completed None
       (ex_store Exec_completed Exec_pending Exec_in_progress)))"
    by (simp add: ex_rollout_defs)
  have ko: "isl (fst (updateExecutionStatus 50 ''r1'' ''L4'' Exec_completed None
       (ex_store Exec_completed Exec_pending Exec_in_progress)))"
    by (simp add: ex_rollout_defs)
  note T = rollout_aggregation [of 50 "''r1''" "''L4''" Exec_completed None
             "ex_store Exec_completed Exec_pending Exec_in_progress"]
  from T ko have unchanged: "snd (updateExecutionStatus 50 ''r1'' ''L4'' Exec_completed None
       (ex_store Exec_completed Exec_pending Exec_in_progress))
     = ex_store Exec_completed Exec_pending Exec_in_progress"
    by blast
  have vals:
    "map ro_status (rollouts (snd (updateExecutionStatus 50 ''r1'' ''L3'' Exec_failed
       (Some ''timeout'') (ex_store Exec_completed Exec_completed Exec_in_progress))))
     = [Failed]"
    "map ro_completed_at (rollouts (snd (updateExecutionStatus 50 ''r1'' ''L3'' Exec_failed
       (Some ''timeout'') (ex_store Exec_completed Exec_completed Exec_in_progress))))
     = [Some 50]"
    "map ro_status (rollouts (snd (updateExecutionStatus 50 ''r1'' ''L3'' Exec_completed None
       (ex_store Exec_completed Exec_completed Exec_in_progress)))) = [Completed]"
    "map ro_status (rollouts (snd (updateExecutionStatus 50 ''r1'' ''L3'' Exec_completed None
       (ex_store Exec_completed Exec_pending Exec_in_progress)))) = [In_progress]"
    using rollout_aggregation [of 50 "''r1''" "''L3''" Exec_failed "Some ''timeout''"
            "ex_store Exec_completed Exec_completed Exec_in_progress"]
          rollout_aggregation [of 50 "''r1''" "''L3''" Exec_completed None
            "ex_store Exec_completed Exec_completed Exec_in_progress"]
          rollout_aggregation [of 50 "''r1''" "''L3''" Exec_completed None
            "ex_store Exec_completed Exec_pending Exec_in_progress"]
          ok1 ok2 ok3
    by (simp_all add: ex_rollout_defs)
  from ok1 vals(1) vals(2) ok2 vals(3) ok3 vals(4) ko unchanged
  show ?thesis by (intro conjI)
qed

section \<open>Starting rollouts\<close>

lemma filter_pending_single:
  assumes "filter (\<lambda>x. ro_id x = rid) rs = [r]" and "ro_status r = Pending"
  shows "filter (\<lambda>x. ro_id x = rid \<and> ro_status x = Pending) rs = [r]"
proof -
  have "filter (\<lambda>x. ro_id x = rid \<and> ro_status x = Pending) rs
        = filter (\<lambda>x. ro_status x = Pending) (filter (\<lambda>x. ro_id x = rid) rs)"
    by (simp add: conj_commute)
  with assms show ?thesis by simp
qed

lemma filter_no_pending:
  assumes "\<forall>x \<in> set rs. ro_id x = rid \<longrightarrow> ro_status x \<noteq> Pending"
  shows "filter (\<lambda>x. ro_id x = rid \<and> ro_status x = Pending) rs = []"
  using assms by (auto simp: filter_empty_conv)

text \<open>
  C7, as the claim states it, fails: a rollout scheduled for time 5 is returned as due
  at time 10, and \<open>startRollout\<close> on it reports an error and leaves it scheduled.
\<close>

theorem scheduled_start_counterexample:
  "getDueScheduledRollouts 10 ex_scheduled_store = [ex_rollout Scheduled (Some 5) [''L1'']] \<and>
   fst (startRollout 10 ''r1'' ex_scheduled_store) = Inl Not_single_row \<and>
   map ro_status (rollouts (snd (startRollout 10 ''r1'' ex_scheduled_store))) = [Scheduled]"
  by (simp add: getDueScheduledRollouts_def startRollout_def ex_scheduled_store_def
        ex_rollout_def Let_def)

text \<open>
  C7, amended. Every scheduled rollout whose \<open>scheduled_at\<close> is not after \<open>now\<close> is
  returned by \<open>getDueScheduledRollouts\<close>. \<open>startRollout\<close> moves the rollout with the given
  identifier to in_progress when it is pending. When no rollout with that identifier is
  pending (it is scheduled, in progress or terminal, or does not exist), \<open>startRollout\<close>
  reports an error and the store is unchanged.
\<close>

theorem scheduled_due_start_pending_only:
  "(r \<in> set (rollouts db) \<and> ro_status r = Scheduled \<and> ro_scheduled_at r = Some t \<and> t \<le> now
      \<longrightarrow> r \<in> set (getDueScheduledRollouts now db)) \<and>
   (filter (\<lambda>x. ro_id x = rid) (rollouts db) = [p] \<and> ro_status p = Pending
      \<longrightarrow> fst (startRollout now rid db)
            = Inr (p\<lparr>ro_status := In_progress, ro_started_at := Some now,
                     ro_updated_at := now\<rparr>) \<and>
          (\<forall>x \<in> set (rollouts (snd (startRollout now rid db))).
             ro_id x = rid \<longrightarrow> ro_status x = In_progress)) \<and>
   ((\<forall>x \<in> set (rollouts db). ro_id x = rid \<longrightarrow> ro_status x \<noteq> Pending)
      \<longrightarrow> startRollout now rid db = (Inl Not_single_row, db))"
proof (intro conjI impI)
  assume "r \<in> set (rollouts db) \<and> ro_status r = Scheduled \<and> ro_scheduled_at r = Some t
          \<and> t \<le> now"
  then show "r \<in> set (getDueScheduledRollouts now db)"
    by (simp add: getDueScheduledRollouts_def)
next
  assume a: "filter (\<lambda>x. ro_id x = rid) (rollouts db) = [p] \<and> ro_status p = Pending"
  then have f: "filter (\<lambda>x. ro_id x = rid \<and> ro_status x = Pending) (rollouts db) = [p]"
    by (simp add: filter_pending_single)
  show "fst (startRollout now rid db)
            = Inr (p\<lparr>ro_status := In_progress, ro_started_at := Some now,
                     ro_updated_at := now\<rparr>)"
    by (simp add: startRollout_def f)
  show "\<forall>x \<in> set (rollouts (snd (startRollout now rid db))).
             ro_id x = rid \<longrightarrow> ro_status x = In_progress"
  proof (intro ballI impI)
    fix x
    assume x: "x \<in> set (rollouts (snd (startRollout now rid db)))" and id: "ro_id x = rid"
    from x obtain y where y: "y \<in> set (rollouts db)"
      and xy: "x = (if ro_id y = rid \<and> ro_status y = Pending
                    then y\<lparr>ro_status := In_progress, ro_started_at := Some now,
                           ro_updated_at := now\<rparr>
                    else y)"
      by (auto simp: startRollout_def f)
    from xy id have "ro_id y = rid" by (simp split: if_splits)
    with y have "y \<in> set (filter (\<lambda>x. ro_id x = rid) (rollouts db))" by simp
    with a have "y = p" by simp
    with a xy \<open>ro_id y = rid\<close> show "ro_status x = In_progress" by simp
  qed
next
  assume "\<forall>x \<in> set (rollouts db). ro_id x = rid \<longrightarrow> ro_status x \<noteq> Pending"
  then have "filter (\<lambda>x. ro_id x = rid \<and> ro_status x = Pending) (rollouts db) = []"
    by (rule filter_no_pending)
  then show "startRollout now rid db = (Inl Not_single_row, db)"
    by (simp add: startRollout_def)
qed

theorem scheduled_due_start_pending_only_witness:
  "ex_rollout Scheduled (Some 5) [''L1''] \<in> set (getDueScheduledRollouts 10 ex_scheduled_store) \<and>
   filter (\<lambda>x. ro_id x = ''r1'') (rollouts ex_pending_store) = [ex_rollout Pending None [''L1'']] \<and>
   fst (startRollout 10 ''r1'' ex_pending_store)
     = Inr ((ex_rollout Pending None [''L1''])
              \<lparr>ro_status := In_progress, ro_started_at := Some 10, ro_updated_at := 10\<rparr>) \<and>
   map ro_status (filter (\<lambda>x. ro_id x = ''r1'') (rollouts ex_scheduled_store)) = [Scheduled] \<and>
   startRollout 10 ''r1'' ex_scheduled_store = (Inl Not_single_row, ex_scheduled_store)"
proof -
  have h1: "ex_rollout Scheduled (Some 5) [''L1''] \<in> set (rollouts ex_scheduled_store) \<and>
            ro_status (ex_rollout Scheduled (Some 5) [''L1'']) = Scheduled \<and>
            ro_scheduled_at (ex_rollout Scheduled (Some 5) [''L1'']) = Some 5 \<and> (5::int) \<le> 10"
    by (simp add: ex_scheduled_store_def ex_rollout_def)
  have h2: "filter (\<lambda>x. ro_id x = ''r1'') (rollouts ex_pending_store)
              = [ex_rollout Pending None [''L1'']] \<and>
            ro_status (ex_rollout Pending None [''L1'']) = Pending"
    by (simp add: ex_pending_store_def ex_rollout_def)
  have h3: "\<forall>x \<in> set (rollouts ex_scheduled_store). ro_id x = ''r1'' \<longrightarrow> ro_status x \<noteq> Pending"
    by (simp add: ex_scheduled_store_def ex_rollout_def)
  note T1 = scheduled_due_start_pending_only
            [of "ex_rollout Scheduled (Some 5) [''L1'']" ex_scheduled_store 5 10 "''r1''"
                "ex_rollout Pending None [''L1'']"]
  note T2 = scheduled_due_start_pending_only
            [of "ex_rollout Scheduled (Some 5) [''L1'']" ex_pending_store 5 10 "''r1''"
                "ex_rollout Pending None [''L1'']"]
  from T1 h1 have c1: "ex_rollout Scheduled (Some 5) [''L1'']
                        \<in> set (getDueScheduledRollouts 10 ex_scheduled_store)"
    by blast
  from T2 h2 have c2: "fst (startRollout 10 ''r1'' ex_pending_store)
     = Inr ((ex_rollout Pending None [''L1''])
              \<lparr>ro_status := In_progress, ro_started_at := Some 10, ro_updated_at := 10\<rparr>)"
    by blast
  from T1 h3 have c3: "startRollout 10 ''r1'' ex_scheduled_store
                        = (Inl Not_single_row, ex_scheduled_store)"
    by blast
  from h2 have h2a: "filter (\<lambda>x. ro_id x = ''r1'') (rollouts ex_pending_store)
              = [ex_rollout Pending None [''L1'']]"
    by (rule conjunct1)
  have h3a: "map ro_status (filter (\<lambda>x. ro_id x = ''r1'') (rollouts ex_scheduled_store))
               = [Scheduled]"
    by (simp add: ex_scheduled_store_def ex_rollout_def)
  from c1 h2a c2 h3a c3 show ?thesis by (intro conjI)
qed

section \<open>Rollouts without target locations\<close>

text \<open>
  C8, as the claim states it, fails: creating a rollout with no target locations is
  accepted, and leaves a pending rollout with no execution record.
\<close>

theorem zero_target_counterexample:
  "\<not> isl (fst (createRollout ''r2'' 10 ''Empty'' ''org-001'' Menu_activation []
             (JObj []) None None empty_store)) \<and>
   map ro_status (rollouts (snd (createRollout ''r2'' 10 ''Empty'' ''org-001''
             Menu_activation [] (JObj []) None None empty_store))) = [Pending] \<and>
   rollout_executions (snd (createRollout ''r2'' 10 ''Empty'' ''org-001''
             Menu_activation [] (JObj []) None None empty_store)) = []"
  by (simp add: createRollout_def empty_store_def Let_def)

text \<open>
  C8, amended. Creating a rollout with an empty list of target locations is not
  special-cased: the store takes the new row, the rollout is returned and stored with
  status scheduled when \<open>scheduled_at\<close> is given and pending otherwise, and no execution
  record is added.
\<close>

theorem zero_target_rollout_stored:
  "newId \<notin> set (map ro_id (rollouts db)) \<longrightarrow>
     (\<exists>r. createRollout newId now name org ty [] payload scheduledAt createdBy db
            = (Inr r, db\<lparr>rollouts := rollouts db @ [r]\<rparr>) \<and>
          ro_id r = newId \<and>
          ro_status r = (case scheduledAt of Some _ \<Rightarrow> Scheduled | None \<Rightarrow> Pending))"
  by (simp add: createRollout_def Let_def)

theorem zero_target_rollout_stored_witness:
  "''r2'' \<notin> set (map ro_id (rollouts empty_store)) \<and>
   (\<exists>r. createRollout ''r2'' 10 ''Empty'' ''org-001'' Menu_activation [] (JObj []) None None
            empty_store
            = (Inr r, empty_store\<lparr>rollouts := rollouts empty_store @ [r]\<rparr>) \<and>
          ro_id r = ''r2'' \<and> ro_status r = Pending)"
  using zero_target_rollout_stored [of "''r2''" empty_store 10 "''Empty''" "''org-001''"
          Menu_activation "JObj []" None None]
  by (simp add: empty_store_def)

text \<open>
  A rollout without executions is never aggregated: every execution update for it
  fails before the completion check.
\<close>

lemma no_executions_never_aggregated:
  assumes "\<forall>e \<in> set (rollout_executions db). ex_rollout_id e \<noteq> rid"
  shows "updateExecutionStatus now rid lid st em db = (Inl Not_single_row, db)"
proof -
  from assms have "filter (\<lambda>e. ex_rollout_id e = rid \<and> ex_location_id e = lid)
                     (rollout_executions db) = []"
    by (auto simp: filter_empty_conv)
  then show ?thesis by (simp add: updateExecutionStatus_def)
qed

section \<open>Codes of the pairing rejections\<close>

text \<open>
  C9, as the claim states it, fails: at a location that is at its device limit the
  location gate rejects with the code \<open>DEVICE_LIMIT_REACHED\<close>, which is not one of the
  four codes of the claim.
\<close>

theorem pairing_codes_counterexample:
  "\<not> res_allowed (fst (enforceLocationPairing 0 (ex_account ''paid'')
                         (ex_location True True) 3 [])) \<and>
   res_code (fst (enforceLocationPairing 0 (ex_account ''paid'') (ex_location True True) 3 []))
     = Some ''DEVICE_LIMIT_REACHED'' \<and>
   res_code (fst (enforceLocationPairing 0 (ex_account ''paid'') (ex_location True True) 3 []))
     \<notin> Some ` set [''BILLING_INACTIVE'', ''DEVICE_LIMIT_EXCEEDED'', ''LOCATION_INACTIVE'',
                    ''SETUP_FEE_NOT_PAID'']"
  by (simp add: enforceLocationPairing_def ex_account_def ex_location_def isBillingActive_def
        ACTIVE_BILLING_STATUSES_def blocked_result_def Let_def)

text \<open>
  C9, amended. Every rejection of the location gate \<open>enforceLocationPairing\<close> carries one
  of the codes \<open>BILLING_INACTIVE\<close>, \<open>LOCATION_INACTIVE\<close>, \<open>SETUP_FEE_NOT_PAID\<close>,
  \<open>DEVICE_LIMIT_REACHED\<close>, and its device-limit rejection carries \<open>DEVICE_LIMIT_REACHED\<close>.
  Every rejection of the pairing endpoint \<open>pairDevice\<close> carries \<open>BILLING_INACTIVE\<close> or
  \<open>DEVICE_LIMIT_EXCEEDED\<close>, and its device-limit rejection is a returned failure with the
  code \<open>DEVICE_LIMIT_EXCEEDED\<close>: the error thrown by \<open>enforceDeviceLimit\<close> is caught.
\<close>

theorem pairing_failure_codes:
  "(\<not> res_allowed (fst (enforceLocationPairing now a l n logs)) \<longrightarrow>
      res_code (fst (enforceLocationPairing now a l n logs))
        \<in> Some ` set [''BILLING_INACTIVE'', ''LOCATION_INACTIVE'', ''SETUP_FEE_NOT_PAID'',
                       ''DEVICE_LIMIT_REACHED'']) \<and>
   (isBillingActive (acc_billing_status a) \<and> loc_active l \<and> loc_setup_fee_paid l
      \<and> n \<ge> loc_device_limit l \<longrightarrow>
      \<not> res_allowed (fst (enforceLocationPairing now a l n logs)) \<and>
      res_code (fst (enforceLocationPairing now a l n logs)) = Some ''DEVICE_LIMIT_REACHED'') \<and>
   (fst (pairDevice now req acct logs) = PairingFailure e \<longrightarrow>
      pe_code e \<in> Some ` set [''BILLING_INACTIVE'', ''DEVICE_LIMIT_EXCEEDED'']) \<and>
   (isBillingActive (acc_billing_status acct) \<and> acc_max_devices acct = Limit m
      \<and> acc_device_count acct + 1 > m \<longrightarrow>
      (\<exists>e. fst (pairDevice now req acct logs) = PairingFailure e \<and>
           pe_code e = Some ''DEVICE_LIMIT_EXCEEDED''))"
proof (intro conjI impI)
  show "res_code (fst (enforceLocationPairing now a l n logs))
        \<in> Some ` set [''BILLING_INACTIVE'', ''LOCATION_INACTIVE'', ''SETUP_FEE_NOT_PAID'',
                       ''DEVICE_LIMIT_REACHED'']"
    if "\<not> res_allowed (fst (enforceLocationPairing now a l n logs))"
    using that
    by (simp add: enforceLocationPairing_def blocked_result_def allowed_result_def Let_def
          split: if_splits)
next
  assume "isBillingActive (acc_billing_status a) \<and> loc_active l \<and> loc_setup_fee_paid l
      \<and> n \<ge> loc_device_limit l"
  then show "\<not> res_allowed (fst (enforceLocationPairing now a l n logs))"
    and "res_code (fst (enforceLocationPairing now a l n logs)) = Some ''DEVICE_LIMIT_REACHED''"
    by (simp_all add: enforceLocationPairing_def blocked_result_def Let_def)
next
  assume "fst (pairDevice now req acct logs) = PairingFailure e"
  then show "pe_code e \<in> Some ` set [''BILLING_INACTIVE'', ''DEVICE_LIMIT_EXCEEDED'']"
    by (auto simp: pairDevice_def enforceBillingForPairing_def enforceDeviceLimit_def
          blocked_result_def allowed_result_def Let_def
          split: if_splits max_devices.splits prod.splits sum.splits)
next
  assume "isBillingActive (acc_billing_status acct) \<and> acc_max_devices acct = Limit m
      \<and> acc_device_count acct + 1 > m"
  then show "\<exists>e. fst (pairDevice now req acct logs) = PairingFailure e \<and>
           pe_code e = Some ''DEVICE_LIMIT_EXCEEDED''"
    by (simp add: pairDevice_def enforceBillingForPairing_def enforceDeviceLimit_def
          allowed_result_def Let_def)
qed

theorem pairing_failure_codes_witness:
  "\<not> res_allowed (fst (enforceLocationPairing 0 (ex_account ''unpaid'')
                         (ex_location True True) 0 [])) \<and>
   res_code (fst (enforceLocationPairing 0 (ex_account ''unpaid'') (ex_location True True) 0 []))
     \<in> Some ` set [''BILLING_INACTIVE'', ''LOCATION_INACTIVE'', ''SETUP_FEE_NOT_PAID'',
                    ''DEVICE_LIMIT_REACHED''] \<and>
   res_code (fst (enforceLocationPairing 0 (ex_account ''paid'') (ex_location True True) 3 []))
     = Some ''DEVICE_LIMIT_REACHED'' \<and>
   (\<exists>e. fst (pairDevice 0 ex_request (ex_pairing_account ''paid'' 3) []) = PairingFailure e \<and>
        pe_code e = Some ''DEVICE_LIMIT_EXCEEDED'' \<and>
        pe_code e \<in> Some ` set [''BILLING_INACTIVE'', ''DEVICE_LIMIT_EXCEEDED''])"
proof -
  have b1: "\<not> res_allowed (fst (enforceLocationPairing 0 (ex_account ''unpaid'')
                         (ex_location True True) 0 []))"
    by (simp add: enforceLocationPairing_def ex_billing blocked_result_def)
  have b2: "isBillingActive (acc_billing_status (ex_account ''paid'')) \<and>
            loc_active (ex_location True True) \<and> loc_setup_fee_paid (ex_location True True) \<and>
            3 \<ge> loc_device_limit (ex_location True True)"
    by (simp add: ex_billing ex_loc)
  have b3: "isBillingActive (acc_billing_status (ex_pairing_account ''paid'' 3)) \<and>
            acc_max_devices (ex_pairing_account ''paid'' 3) = Limit 3 \<and>
            acc_device_count (ex_pairing_account ''paid'' 3) + 1 > 3"
    by (simp add: ex_pairing_account_def isBillingActive_def ACTIVE_BILLING_STATUSES_def)
  note T1 = pairing_failure_codes [where now = 0 and a = "ex_account ''unpaid''"
              and l = "ex_location True True" and n = 0 and logs = "[]" and req = ex_request
              and acct = "ex_pairing_account ''paid'' 3" and m = 3]
  note T2 = pairing_failure_codes [where now = 0 and a = "ex_account ''paid''"
              and l = "ex_location True True" and n = 3 and logs = "[]" and req = ex_request
              and acct = "ex_pairing_account ''paid'' 3" and m = 3]
  from T1 b1 have c1: "res_code (fst (enforceLocationPairing 0 (ex_account ''unpaid'')
         (ex_location True True) 0 []))
     \<in> Some ` set [''BILLING_INACTIVE'', ''LOCATION_INACTIVE'', ''SETUP_FEE_NOT_PAID'',
                    ''DEVICE_LIMIT_REACHED'']"
    by blast
  from T2 b2 have c2: "res_code (fst (enforceLocationPairing 0 (ex_account ''paid'')
         (ex_location True True) 3 [])) = Some ''DEVICE_LIMIT_REACHED''"
    by blast
  from T2 b3 obtain e where e: "fst (pairDevice 0 ex_request (ex_pairing_account ''paid'' 3) [])
                                  = PairingFailure e"
      and ce: "pe_code e = Some ''DEVICE_LIMIT_EXCEEDED''"
    by blast
  from pairing_failure_codes [where now = 0 and a = "ex_account ''paid''"
              and l = "ex_location True True" and n = 3 and logs = "[]" and req = ex_request
              and acct = "ex_pairing_account ''paid'' 3" and m = 3 and e = e] e
  have c4: "pe_code e \<in> Some ` set [''BILLING_INACTIVE'', ''DEVICE_LIMIT_EXCEEDED'']"
    by blast
  from e ce c4 have c3: "\<exists>e. fst (pairDevice 0 ex_request (ex_pairing_account ''paid'' 3) [])
          = PairingFailure e \<and> pe_code e = Some ''DEVICE_LIMIT_EXCEEDED'' \<and>
        pe_code e \<in> Some ` set [''BILLING_INACTIVE'', ''DEVICE_LIMIT_EXCEEDED'']"
    by blast
  from b1 c1 c2 c3 show ?thesis by (intro conjI)
qed

section \<open>Validation of mirrored events\<close>

text \<open>
  When no entry of the batch is \<open>null\<close>, the loop returns the rows of the valid entries,
  in order, and one error for each invalid entry; when some entry is \<open>null\<close>, the loop
  throws.
\<close>

lemma validate_events_no_null:
  "JNull \<notin> set es \<Longrightarrow>
   validate_events nowIso es i validEvents errors =
     Inr (validEvents @ map (make_row nowIso) (filter item_valid es),
          errors @ expected_errors i es)"
proof (induction es arbitrary: i validEvents errors)
  case Nil
  then show ?case by simp
next
  case (Cons e es)
  from Cons.prems have e: "e \<noteq> JNull" and es: "JNull \<notin> set es" by auto
  from e have g: "get_prop e ''event_type'' = Inr (js_get e ''event_type'')"
    by (cases e) (simp_all add: get_prop_def js_get_def)
  show ?case
    by (simp add: g Cons.IH [OF es] item_valid_def has_required_def item_error_def)
qed

lemma validate_events_null:
  "JNull \<in> set es \<Longrightarrow> validate_events nowIso es i validEvents errors = Inl TypeError"
proof (induction es arbitrary: i validEvents errors)
  case Nil
  then show ?case by simp
next
  case (Cons e es)
  show ?case
  proof (cases "e = JNull")
    case True
    then show ?thesis by (simp add: get_prop_def)
  next
    case False
    with Cons.prems have es: "JNull \<in> set es" by auto
    from False have g: "get_prop e ''event_type'' = Inr (js_get e ''event_type'')"
      by (cases e) (simp_all add: get_prop_def js_get_def)
    show ?thesis by (simp add: g Cons.IH [OF es])
  qed
qed

lemma post_events_null:
  "JNull \<in> set es \<Longrightarrow>
   post_events True nowIso accepts (JArr es) event_log = (Server_error null_type_error, event_log)"
  by (simp add: post_events_def validate_events_null)

lemma post_events_no_null:
  assumes "JNull \<notin> set es" and "filter item_valid es \<noteq> []"
    and "accepts (map (make_row nowIso) (filter item_valid es))"
  shows "post_events True nowIso accepts (JArr es) event_log =
     (Created (length (filter item_valid es))
        (if expected_errors 0 es = [] then None else Some (expected_errors 0 es)),
      event_log @ map (make_row nowIso) (filter item_valid es))"
  using assms by (simp add: post_events_def validate_events_no_null)

lemma post_events_none_valid:
  assumes "JNull \<notin> set es" and "filter item_valid es = []"
  shows "post_events True nowIso accepts (JArr es) event_log =
     (Bad_request ''No valid events'' (expected_errors 0 es), event_log)"
  using assms by (simp add: post_events_def validate_events_no_null)

text \<open>The errors carry the indices of the invalid entries, and of no other.\<close>

lemma expected_errors_index:
  "set (expected_errors i es) =
     {item_error (i + k) (es ! k) | k. k < length es \<and> \<not> item_valid (es ! k)}"
proof (induction es arbitrary: i)
  case Nil
  then show ?case by simp
next
  case (Cons e es)
  have "{item_error (i + k) ((e # es) ! k) | k.
           k < length (e # es) \<and> \<not> item_valid ((e # es) ! k)}
      = (if item_valid e then {} else {item_error i e})
        \<union> {item_error (Suc i + k) (es ! k) | k. k < length es \<and> \<not> item_valid (es ! k)}"
    (is "?L = ?R")
  proof (intro set_eqI iffI)
    fix x assume "x \<in> ?L"
    then obtain k where k: "k < length (e # es)" "\<not> item_valid ((e # es) ! k)"
      and x: "x = item_error (i + k) ((e # es) ! k)" by blast
    show "x \<in> ?R"
    proof (cases k)
      case 0
      with k x show ?thesis by simp
    next
      case (Suc j)
      with k x have "j < length es" "\<not> item_valid (es ! j)"
        "x = item_error (Suc i + j) (es ! j)"
        by simp_all
      then show ?thesis by blast
    qed
  next
    fix x assume "x \<in> ?R"
    then consider "\<not> item_valid e" "x = item_error i e"
      | j where "j < length es" "\<not> item_valid (es ! j)" "x = item_error (Suc i + j) (es ! j)"
      by (auto split: if_splits)
    then show "x \<in> ?L"
    proof cases
      case 1
      then have "0 < length (e # es) \<and> \<not> item_valid ((e # es) ! 0)
                 \<and> x = item_error (i + 0) ((e # es) ! 0)"
        by simp
      then show ?thesis by blast
    next
      case 2
      then have "Suc j < length (e # es) \<and> \<not> item_valid ((e # es) ! Suc j)
                 \<and> x = item_error (i + Suc j) ((e # es) ! Suc j)"
        by simp
      then show ?thesis by blast
    qed
  qed
  then show ?case by (simp add: Cons.IH)
qed

text \<open>
  C10. The claim is that each invalid entry of a batch gets an error of its own, with
  its index, and that every valid entry of the batch is stored all the same. The code
  misses it on a batch that holds a \<open>null\<close> entry: here the first entry is valid and the
  second is \<open>null\<close>, the loop throws on the second, and the handler answers 500 and
  stores nothing, although the store would take every row.
\<close>

theorem events_null_entry_fails_batch:
  "item_valid ex_event \<and>
   post_events True ''2024-01-01T00:00:00.000Z'' (\<lambda>rows. True) (JArr [ex_event, JNull]) []
     = (Server_error null_type_error, [])"
  by (simp add: post_events_def get_prop_def js_get_def truthy_def includes_service_def
        validServices_def ex_event_def item_valid_def has_required_def)

end
